theory Spec2Isabelle
  imports Complex_Main
begin

section \<open>Stock-Analysis: the forecast ensemble engine\<close>

text \<open>
  A shallow embedding of \<^verbatim>\<open>PredictionService\<close>, which exists twice in the repository:
  \<^verbatim>\<open>backend/services/prediction_service.py\<close> (synchronous, Flask) and
  \<^verbatim>\<open>prediction-service/services/prediction_service.py\<close> (asynchronous, FastAPI).
  Functions whose bodies are the same in both files are embedded once; where the two files
  differ, the backend's function keeps the source's name and the prediction-service's
  carries the suffix \<open>_ps\<close>.

  Conventions of the embedding:
  \<^item> a float is a \<^typ>\<open>real\<close>: the arithmetic is exact, overflow, NaN and the rounding of
    binary floating point are not modelled;
  \<^item> a calendar date is its proleptic Gregorian ordinal (\<^verbatim>\<open>date.toordinal()\<close>), an
    \<^typ>\<open>int\<close>; \<^verbatim>\<open>timedelta(days=k)\<close> adds \<open>k\<close>; the \<^verbatim>\<open>strftime\<close> rendering of a date
    is not modelled and a record holds the ordinal;
  \<^item> a Python \<^verbatim>\<open>int\<close> is an \<^typ>\<open>int\<close>; \<^verbatim>\<open>range(days)\<close> is \<open>[0..<nat days]\<close>;
  \<^item> an exception is a value of \<open>exn\<close> and a function that can raise returns \<open>exn + 'a\<close>;
  \<^item> the libraries (yfinance, statsmodels, scikit-learn) and the clock are fields of an
    environment record.
\<close>

subsection \<open>Exceptions\<close>

datatype exn =
    ValueError string
  | IndexError string
  | ZeroDivisionError string
  | LibraryError string
  | Exception string

text \<open>\<^verbatim>\<open>str(e)\<close>: the message of the exception.\<close>

fun str_exn :: "exn \<Rightarrow> string" where
  "str_exn (ValueError m) = m"
| "str_exn (IndexError m) = m"
| "str_exn (ZeroDivisionError m) = m"
| "str_exn (LibraryError m) = m"
| "str_exn (Exception m) = m"

subsection \<open>Calendar\<close>

text \<open>\<^verbatim>\<open>date.weekday()\<close> is \<^verbatim>\<open>(toordinal() + 6) % 7\<close>: Monday is 0 and Sunday is 6.\<close>

definition weekday :: "int \<Rightarrow> int" where
  "weekday d = (d + 6) mod 7"

text \<open>
  backend, lines 59--60:
  \<^verbatim>\<open>while future_date.weekday() > 4: future_date += timedelta(days=1)\<close>
\<close>

function skip_weekend :: "int \<Rightarrow> int" where
  "skip_weekend future_date =
     (if weekday future_date > 4 then skip_weekend (future_date + 1) else future_date)"
  by pat_completeness auto
termination
proof (relation "measure (\<lambda>d. if weekday d < 5 then 0 else nat (7 - weekday d))")
  fix future_date :: int
  assume late: "4 < weekday future_date"
  have "weekday (future_date + 1) = (if weekday future_date = 6 then 0 else weekday future_date + 1)"
  proof -
    have "weekday (future_date + 1) = (weekday future_date + 1) mod 7"
      unfolding weekday_def by (simp add: mod_simps add.commute add.left_commute)
    moreover have "0 \<le> weekday future_date \<and> weekday future_date < 7"
      by (simp add: weekday_def)
    ultimately show ?thesis by auto
  qed
  moreover have "weekday future_date < 7"
    by (simp add: weekday_def)
  ultimately show "(future_date + 1, future_date)
             \<in> measure (\<lambda>d. if weekday d < 5 then 0 else nat (7 - weekday d))"
    using late by auto
qed simp

declare skip_weekend.simps [simp del]

text \<open>
  backend, lines 54--61:
  \<^verbatim>\<open>
  future_dates = []
  for i in range(1, days + 1):
      future_date = last_date + timedelta(days=i)
      while future_date.weekday() > 4: future_date += timedelta(days=1)
      future_dates.append(future_date.strftime('%Y-%m-%d'))
  \<close>
\<close>

definition future_dates :: "int \<Rightarrow> int \<Rightarrow> int list" where
  "future_dates last_date days =
     map (\<lambda>i. skip_weekend (last_date + i)) [1..days]"

text \<open>
  prediction-service, lines 241--252, the loop of \<^verbatim>\<open>_generate_business_dates\<close>:
  \<^verbatim>\<open>
  while len(business_dates) < days:
      if current_date.weekday() < 5: business_dates.append(current_date)
      current_date += timedelta(days=1)
  \<close>
\<close>

function business_dates_loop :: "int \<Rightarrow> int list \<Rightarrow> int \<Rightarrow> int list" where
  "business_dates_loop current_date business_dates days =
     (if int (length business_dates) < days
      then (if weekday current_date < 5
            then business_dates_loop (current_date + 1) (business_dates @ [current_date]) days
            else business_dates_loop (current_date + 1) business_dates days)
      else business_dates)"
  by pat_completeness auto
termination
proof (relation "measure (\<lambda>(d, bs, n).
         7 * nat (n - int (length bs)) + (if weekday d < 5 then 0 else nat (7 - weekday d)))")
  fix current_date :: int and business_dates :: "int list" and days :: int
  assume "int (length business_dates) < days" "weekday current_date < 5"
  moreover have "weekday (current_date + 1) = (if weekday current_date = 6 then 0 else weekday current_date + 1)"
  proof -
    have "weekday (current_date + 1) = (weekday current_date + 1) mod 7"
      unfolding weekday_def by (simp add: mod_simps add.commute add.left_commute)
    moreover have "0 \<le> weekday current_date \<and> weekday current_date < 7"
      by (simp add: weekday_def)
    ultimately show ?thesis by auto
  qed
  moreover have "0 \<le> weekday current_date"
    by (simp add: weekday_def)
  ultimately show "((current_date + 1, business_dates @ [current_date], days),
              current_date, business_dates, days)
             \<in> measure (\<lambda>(d, bs, n).
                  7 * nat (n - int (length bs)) +
                  (if weekday d < 5 then 0 else nat (7 - weekday d)))"
    by auto
next
  fix current_date :: int and business_dates :: "int list" and days :: int
  assume "int (length business_dates) < days" "\<not> weekday current_date < 5"
  moreover have "weekday (current_date + 1) = (if weekday current_date = 6 then 0 else weekday current_date + 1)"
  proof -
    have "weekday (current_date + 1) = (weekday current_date + 1) mod 7"
      unfolding weekday_def by (simp add: mod_simps add.commute add.left_commute)
    moreover have "0 \<le> weekday current_date \<and> weekday current_date < 7"
      by (simp add: weekday_def)
    ultimately show ?thesis by auto
  qed
  moreover have "weekday current_date < 7"
    by (simp add: weekday_def)
  ultimately show "((current_date + 1, business_dates, days), current_date, business_dates, days)
             \<in> measure (\<lambda>(d, bs, n).
                  7 * nat (n - int (length bs)) +
                  (if weekday d < 5 then 0 else nat (7 - weekday d)))"
    by auto
qed simp

declare business_dates_loop.simps [simp del]

definition generate_business_dates :: "int \<Rightarrow> int \<Rightarrow> int list" where
  "generate_business_dates start_date days = business_dates_loop (start_date + 1) [] days"

subsection \<open>numpy and built-in functions\<close>

text \<open>\<^verbatim>\<open>xs[-k:]\<close>: the last \<open>k\<close> elements, the whole list when it is shorter.\<close>

definition slice_last :: "nat \<Rightarrow> 'a list \<Rightarrow> 'a list" where
  "slice_last k xs = drop (length xs - k) xs"

text \<open>\<^verbatim>\<open>np.mean\<close>. (On an empty array numpy returns NaN; here the quotient by 0 is 0.)\<close>

definition np_mean :: "real list \<Rightarrow> real" where
  "np_mean xs = sum_list xs / real (length xs)"

text \<open>\<^verbatim>\<open>np.std\<close> with its default \<^verbatim>\<open>ddof=0\<close>: \<^verbatim>\<open>sqrt(mean(abs(x - x.mean())**2))\<close>.\<close>

definition np_std :: "real list \<Rightarrow> real" where
  "np_std xs = sqrt (np_mean (map (\<lambda>x. \<bar>x - np_mean xs\<bar>\<^sup>2) xs))"

text \<open>\<^verbatim>\<open>np.diff\<close>: \<^verbatim>\<open>out[t] = a[t+1] - a[t]\<close>.\<close>

definition np_diff :: "real list \<Rightarrow> real list" where
  "np_diff xs = map (\<lambda>(a, b). b - a) (zip xs (tl xs))"

text \<open>
  \<^verbatim>\<open>round(x, 2)\<close>: to the nearest multiple of 0.01, a tie to the even one
  (on the exact value: a float's rounding is not modelled).
\<close>

definition py_round2 :: "real \<Rightarrow> real" where
  "py_round2 x =
     (let y = x * 100; f = \<lfloor>y\<rfloor>; d = y - of_int f
      in of_int (if d < 1/2 then f else if 1/2 < d then f + 1
                 else if even f then f else f + 1) / 100)"

text \<open>\<^verbatim>\<open>str(n)\<close> of an \<^verbatim>\<open>int\<close>, for the f-string \<^verbatim>\<open>f"{days} days"\<close>.\<close>

fun str_nat :: "nat \<Rightarrow> string" where
  "str_nat n =
     (if n < 10 then [''0123456789'' ! n]
      else str_nat (n div 10) @ [''0123456789'' ! (n mod 10)])"

definition str_int :: "int \<Rightarrow> string" where
  "str_int i = (if i < 0 then CHR ''-'' # str_nat (nat (- i)) else str_nat (nat i))"

subsection \<open>The libraries\<close>

text \<open>
  What the service calls and does not define:
  \<^item> \<open>history\<close>: \<^verbatim>\<open>yf.Ticker(symbol).history(period="2y")\<close>, the rows of the frame as
    pairs of the index date and the \<^verbatim>\<open>Close\<close> price;
  \<^item> \<open>AutoReg_forecast prices lags steps\<close>:
    \<^verbatim>\<open>AutoReg(prices, lags=lags, trend='ct').fit().forecast(steps=steps).tolist()\<close>;
  \<^item> \<open>LinearRegression_fit X y\<close>: \<^verbatim>\<open>LinearRegression().fit(X, y)\<close>, the fitted
    \<^verbatim>\<open>coef_\<close> and \<^verbatim>\<open>intercept_\<close>;
  \<^item> \<open>ARIMA_forecast prices steps\<close>:
    \<^verbatim>\<open>ARIMA(prices, order=(1, 1, 1)).fit().forecast(steps=steps).tolist()\<close>;
  \<^item> \<open>now\<close>: \<^verbatim>\<open>datetime.now()\<close>.
  Each call either returns or raises.
\<close>

record env =
  history :: "string \<Rightarrow> exn + (int \<times> real) list"
  AutoReg_forecast :: "real list \<Rightarrow> int \<Rightarrow> int \<Rightarrow> exn + real list"
  LinearRegression_fit :: "real list list \<Rightarrow> real list \<Rightarrow> exn + (real list \<times> real)"
  ARIMA_forecast :: "real list \<Rightarrow> int \<Rightarrow> exn + real list"
  now :: string

text \<open>
  \<^verbatim>\<open>model.predict(X_pred)[0]\<close> of a fitted linear model: \<^verbatim>\<open>x @ coef_ + intercept_\<close>.
  On a row of finite numbers of the fitted width it does not raise.
\<close>

definition LinearRegression_predict :: "real list \<times> real \<Rightarrow> real list \<Rightarrow> real" where
  "LinearRegression_predict model x =
     sum_list (map (\<lambda>(c, v). c * v) (zip (fst model) x)) + snd model"

subsection \<open>The fallback and the three predictors\<close>

text \<open>
  \<^verbatim>\<open>_simple_trend_prediction\<close> (backend 174--185, prediction-service 200--211).
  \<^verbatim>\<open>recent_prices[-1]\<close> raises IndexError on an empty array.
\<close>

definition simple_trend_prediction :: "real list \<Rightarrow> int \<Rightarrow> exn + real list" where
  "simple_trend_prediction prices days =
     (let recent_prices = slice_last 10 prices
      in if recent_prices = []
         then Inl (IndexError ''index -1 is out of bounds for axis 0 with size 0'')
         else
           let trend = (last recent_prices - hd recent_prices) / real (length recent_prices)
           in Inr (map (\<lambda>i. last prices + trend * of_int i) [1..days]))"

text \<open>
  \<^verbatim>\<open>_predict_with_autoregression\<close> of the backend (101--114); \<^verbatim>\<open>_ar_predict\<close> of the
  prediction-service (110--122) has the same body. The bare \<^verbatim>\<open>except:\<close> takes every
  exception of the fit and of the forecast to the fallback.
\<close>

definition predict_with_autoregression :: "env \<Rightarrow> real list \<Rightarrow> int \<Rightarrow> exn + real list" where
  "predict_with_autoregression e prices days =
     (let max_lag = min 20 (int (length prices) div 5)
      in case AutoReg_forecast e prices max_lag days of
           Inr forecast \<Rightarrow> Inr forecast
         | Inl _ \<Rightarrow> simple_trend_prediction prices days)"

text \<open>
  The feature table of \<^verbatim>\<open>_predict_with_linear_regression\<close>:
  \<^verbatim>\<open>df['price'].rolling(w).mean()\<close> is NaN (here \<open>None\<close>) in the first \<open>w - 1\<close> rows,
  and \<^verbatim>\<open>df.dropna()\<close> keeps the rows without a NaN.
\<close>

definition rolling_mean :: "nat \<Rightarrow> real list \<Rightarrow> real option list" where
  "rolling_mean w xs =
     map (\<lambda>t. if t + 1 < w then None else Some (np_mean (take w (drop (t + 1 - w) xs))))
       [0..<length xs]"

definition feature_table ::
  "real list \<Rightarrow> (real \<times> real option \<times> real option \<times> real option \<times> nat) list" where
  "feature_table prices =
     map (\<lambda>t. (prices ! t, rolling_mean 5 prices ! t, rolling_mean 10 prices ! t,
                rolling_mean 20 prices ! t, t))
       [0..<length prices]"

fun dropna_row ::
  "real \<times> real option \<times> real option \<times> real option \<times> nat \<Rightarrow>
   (real \<times> real \<times> real \<times> real \<times> nat) option" where
  "dropna_row (price, Some ma_5, Some ma_10, Some ma_20, trend) =
     Some (price, ma_5, ma_10, ma_20, trend)"
| "dropna_row _ = None"

definition dropna ::
  "(real \<times> real option \<times> real option \<times> real option \<times> nat) list \<Rightarrow>
   (real \<times> real \<times> real \<times> real \<times> nat) list" where
  "dropna df = List.map_filter dropna_row df"

text \<open>
  The forecasting loop of \<^verbatim>\<open>_predict_with_linear_regression\<close> (backend 142--157):
  \<open>i\<close> is the loop index and the last argument counts the iterations left.
\<close>

fun lr_forecast_loop ::
  "real list \<times> real \<Rightarrow> nat \<Rightarrow> real list \<Rightarrow> nat \<Rightarrow> nat \<Rightarrow> real list" where
  "lr_forecast_loop model n last_prices i 0 = []"
| "lr_forecast_loop model n last_prices i (Suc k) =
     (let ma_5 = np_mean (slice_last 5 last_prices);
          ma_10 = np_mean (slice_last 10 last_prices);
          ma_20 = np_mean (slice_last 20 last_prices);
          trend = n + i;
          pred = LinearRegression_predict model [ma_5, ma_10, ma_20, real trend];
          appended = last_prices @ [pred];
          last_prices' = (if length appended > 20 then tl appended else appended)
      in pred # lr_forecast_loop model n last_prices' (i + 1) k)"

text \<open>
  \<^verbatim>\<open>_predict_with_linear_regression\<close> of the backend (116--161); \<^verbatim>\<open>_lr_predict\<close> of the
  prediction-service (133--178) has the same body.
\<close>

definition predict_with_linear_regression :: "env \<Rightarrow> real list \<Rightarrow> int \<Rightarrow> exn + real list" where
  "predict_with_linear_regression e prices days =
     (let df = dropna (feature_table prices);
          X = map (\<lambda>(price, ma_5, ma_10, ma_20, trend). [ma_5, ma_10, ma_20, real trend]) df;
          y = map (\<lambda>(price, ma_5, ma_10, ma_20, trend). price) df
      in case LinearRegression_fit e X y of
           Inr model \<Rightarrow>
             Inr (lr_forecast_loop model (length prices) (slice_last 20 prices) 0 (nat days))
         | Inl _ \<Rightarrow> simple_trend_prediction prices days)"

text \<open>
  \<^verbatim>\<open>_predict_with_arima\<close> of the backend (163--172); \<^verbatim>\<open>_arima_predict\<close> of the
  prediction-service (189--198) has the same body.
\<close>

definition predict_with_arima :: "env \<Rightarrow> real list \<Rightarrow> int \<Rightarrow> exn + real list" where
  "predict_with_arima e prices days =
     (case ARIMA_forecast e prices days of
        Inr forecast \<Rightarrow> Inr forecast
      | Inl _ \<Rightarrow> simple_trend_prediction prices days)"

text \<open>
  The asynchronous wrappers of the prediction-service (100--108, 124--131, 180--187) run the
  synchronous predictor in the executor and, on any exception of it, log a warning and
  return the fallback.
\<close>

definition predict_with_autoregression_ps :: "env \<Rightarrow> real list \<Rightarrow> int \<Rightarrow> exn + real list" where
  "predict_with_autoregression_ps e prices days =
     (case predict_with_autoregression e prices days of
        Inr r \<Rightarrow> Inr r
      | Inl _ \<Rightarrow> simple_trend_prediction prices days)"

definition predict_with_linear_regression_ps :: "env \<Rightarrow> real list \<Rightarrow> int \<Rightarrow> exn + real list" where
  "predict_with_linear_regression_ps e prices days =
     (case predict_with_linear_regression e prices days of
        Inr r \<Rightarrow> Inr r
      | Inl _ \<Rightarrow> simple_trend_prediction prices days)"

definition predict_with_arima_ps :: "env \<Rightarrow> real list \<Rightarrow> int \<Rightarrow> exn + real list" where
  "predict_with_arima_ps e prices days =
     (case predict_with_arima e prices days of
        Inr r \<Rightarrow> Inr r
      | Inl _ \<Rightarrow> simple_trend_prediction prices days)"

subsection \<open>Ensemble, confidence intervals, accuracy metrics\<close>

text \<open>
  The ensemble loop of \<^verbatim>\<open>predict_prices\<close> (backend 39--46, prediction-service 42--49),
  over the indices of \<^verbatim>\<open>range(days)\<close>. The predictions are Python lists: an index
  past the end raises IndexError.
\<close>

fun ensemble_loop :: "real list \<Rightarrow> real list \<Rightarrow> real list \<Rightarrow> nat list \<Rightarrow> exn + real list" where
  "ensemble_loop ar_predictions lr_predictions arima_predictions [] = Inr []"
| "ensemble_loop ar_predictions lr_predictions arima_predictions (i # rest) =
     (if i < length ar_predictions \<and> i < length lr_predictions \<and> i < length arima_predictions
      then
        let ensemble_pred =
              np_mean [ar_predictions ! i, lr_predictions ! i, arima_predictions ! i]
        in (case ensemble_loop ar_predictions lr_predictions arima_predictions rest of
              Inl x \<Rightarrow> Inl x
            | Inr ensemble_predictions \<Rightarrow> Inr (ensemble_pred # ensemble_predictions))
      else Inl (IndexError ''list index out of range''))"

text \<open>\<^verbatim>\<open>_calculate_confidence_intervals\<close> of the backend (187--201).\<close>

definition calculate_confidence_intervals :: "real list \<Rightarrow> real list \<Rightarrow> (real \<times> real) list" where
  "calculate_confidence_intervals historical_prices predictions =
     (let returns = map (\<lambda>(d, p). d / p) (zip (np_diff historical_prices) (butlast historical_prices));
          volatility = np_std returns
      in map (\<lambda>(i, pred).
                let uncertainty = volatility * sqrt (real (i + 1)) * pred;
                    lower_bound = pred - (1.96 * uncertainty);
                    upper_bound = pred + (1.96 * uncertainty)
                in (lower_bound, upper_bound))
           (enumerate 0 predictions))"

text \<open>
  \<^verbatim>\<open>_calculate_confidence_intervals\<close> of the prediction-service (213--227): the same, with
  the scale factor 0.1 in the uncertainty.
\<close>

definition calculate_confidence_intervals_ps :: "real list \<Rightarrow> real list \<Rightarrow> (real \<times> real) list" where
  "calculate_confidence_intervals_ps historical_prices predictions =
     (let returns = map (\<lambda>(d, p). d / p) (zip (np_diff historical_prices) (butlast historical_prices));
          volatility = np_std returns
      in map (\<lambda>(i, pred).
                let uncertainty = volatility * sqrt (real (i + 1)) * pred * 0.1;
                    lower_bound = pred - (1.96 * uncertainty);
                    upper_bound = pred + (1.96 * uncertainty)
                in (lower_bound, upper_bound))
           (enumerate 0 predictions))"

record AccuracyMetrics =
  recent_volatility_percent :: real
  trend_direction :: string
  data_points_used :: nat

text \<open>
  \<^verbatim>\<open>_calculate_accuracy_metrics\<close> (backend 203--213, prediction-service 229--239).
  \<^verbatim>\<open>prices[-30]\<close> raises IndexError on fewer than 30 prices.
\<close>

definition calculate_accuracy_metrics :: "real list \<Rightarrow> exn + AccuracyMetrics" where
  "calculate_accuracy_metrics prices =
     (let recent_volatility =
            np_std (slice_last 30 prices) / np_mean (slice_last 30 prices) * 100
      in if length prices < 30
         then Inl (IndexError ''index -30 is out of bounds for axis 0'')
         else
           let trend_direction' =
                 (if last prices > prices ! (length prices - 30) then ''upward'' else ''downward'')
           in Inr \<lparr>recent_volatility_percent = py_round2 recent_volatility,
                   trend_direction = trend_direction',
                   data_points_used = length prices\<rparr>)"

subsection \<open>The response\<close>

record PredictionData =
  date :: int
  predicted_price :: real
  lower_bound :: real
  upper_bound :: real
  change_from_current :: real
  change_percent :: real

record ModelInfo =
  methods_used :: "string list"
  ensemble :: string
  accuracy_metrics :: AccuracyMetrics

record PredictionResponse =
  symbol :: string
  current_price :: real
  prediction_period :: string
  predictions :: "PredictionData list"
  model_info :: ModelInfo
  timestamp :: string

text \<open>
  One record of the response (backend 69--80, prediction-service 65--76): the body of the
  loop below, where the division by \<open>current_price\<close> does not raise.
\<close>

definition prediction_row ::
  "real \<Rightarrow> real list \<Rightarrow> (real \<times> real) list \<Rightarrow> nat \<Rightarrow> int \<Rightarrow> PredictionData" where
  "prediction_row current_price' ensemble_predictions confidence_intervals i d =
     (let pred_price = py_round2 (ensemble_predictions ! i);
          lower_bound' = py_round2 (fst (confidence_intervals ! i));
          upper_bound' = py_round2 (snd (confidence_intervals ! i))
      in \<lparr>date = d,
          predicted_price = pred_price,
          lower_bound = lower_bound',
          upper_bound = upper_bound',
          change_from_current = py_round2 (pred_price - current_price'),
          change_percent = py_round2 (((pred_price - current_price') / current_price') * 100)\<rparr>)"

text \<open>
  The loop that prepares the response (backend 67--80, prediction-service 63--76), over
  \<^verbatim>\<open>enumerate(future_dates)\<close>. \<open>pred_price\<close> and \<open>current_price\<close> are Python floats:
  the division raises ZeroDivisionError on a zero \<open>current_price\<close>, in the first
  iteration that builds a record.
\<close>

fun predictions_data_loop ::
  "real \<Rightarrow> real list \<Rightarrow> (real \<times> real) list \<Rightarrow> (nat \<times> int) list \<Rightarrow> exn + PredictionData list" where
  "predictions_data_loop current_price' ensemble_predictions confidence_intervals [] = Inr []"
| "predictions_data_loop current_price' ensemble_predictions confidence_intervals ((i, d) # rest) =
     (if i < length ensemble_predictions
      then
        if current_price' = 0
        then Inl (ZeroDivisionError ''float division by zero'')
        else
          (case predictions_data_loop current_price' ensemble_predictions confidence_intervals rest of
             Inl x \<Rightarrow> Inl x
           | Inr predictions_data \<Rightarrow>
               Inr (prediction_row current_price' ensemble_predictions confidence_intervals i d
                    # predictions_data))
      else predictions_data_loop current_price' ensemble_predictions confidence_intervals rest)"

subsection \<open>\<^verbatim>\<open>predict_prices\<close>\<close>

text \<open>
  The predictors are calls to the libraries. To state which of them a run has invoked,
  \<^verbatim>\<open>predict_prices\<close> returns, next to its result, the list of the predictors it has
  called, in the order of the calls.
\<close>

datatype predictor = AutoRegression | LinearRegression | ARIMA

text \<open>\<^verbatim>\<open>xs[:k]\<close>; a negative \<open>k\<close> drops the last \<open>-k\<close> elements.\<close>

definition slice_first :: "int \<Rightarrow> 'a list \<Rightarrow> 'a list" where
  "slice_first k xs = (if 0 \<le> k then take (nat k) xs else take (length xs - nat (- k)) xs)"

text \<open>
  Backend, the \<^verbatim>\<open>try\<close> block of \<^verbatim>\<open>predict_prices\<close> from the ensemble on (lines 38--96),
  given the frame \<open>hist\<close>, its \<^verbatim>\<open>Close\<close> column \<open>prices\<close> and the three predictions.
\<close>

definition prepare_response ::
  "env \<Rightarrow> string \<Rightarrow> int \<Rightarrow> (int \<times> real) list \<Rightarrow> real list \<Rightarrow>
   real list \<Rightarrow> real list \<Rightarrow> real list \<Rightarrow> exn + PredictionResponse" where
  "prepare_response e symbol' days hist prices ar_predictions lr_predictions arima_predictions =
     (case ensemble_loop ar_predictions lr_predictions arima_predictions [0..<nat days] of
        Inl x \<Rightarrow> Inl x
      | Inr ensemble_predictions \<Rightarrow>
          let confidence_intervals = calculate_confidence_intervals prices ensemble_predictions;
              last_date = fst (last hist);
              future = future_dates last_date days;
              current_price' = last prices
          in (case predictions_data_loop current_price' ensemble_predictions confidence_intervals
                    (enumerate 0 future) of
               Inl x \<Rightarrow> Inl x
             | Inr predictions_data \<Rightarrow>
                 (case calculate_accuracy_metrics prices of
                    Inl x \<Rightarrow> Inl x
                  | Inr accuracy \<Rightarrow>
                      Inr \<lparr>symbol = symbol',
                           current_price = py_round2 current_price',
                           prediction_period = str_int days @ '' days'',
                           predictions = predictions_data,
                           model_info =
                             \<lparr>methods_used = [''AutoRegression'', ''Linear Regression'', ''ARIMA''],
                              ensemble = ''Average of all methods'',
                              accuracy_metrics = accuracy\<rparr>,
                           timestamp = now e\<rparr>)))"

text \<open>
  Backend, the \<^verbatim>\<open>try\<close> block of \<^verbatim>\<open>predict_prices\<close> (lines 19--96). The predictors run
  one after the other; an exception leaves the block at once.
\<close>

definition predict_prices_try ::
  "env \<Rightarrow> string \<Rightarrow> int \<Rightarrow> predictor list \<times> (exn + PredictionResponse)" where
  "predict_prices_try e symbol' days =
     (case history e symbol' of
        Inl x \<Rightarrow> ([], Inl x)
      | Inr hist \<Rightarrow>
          if length hist < 50
          then ([], Inl (ValueError (''Insufficient historical data for '' @ symbol')))
          else
            let prices = map snd hist
            in (case predict_with_autoregression e prices days of
                 Inl x \<Rightarrow> ([AutoRegression], Inl x)
               | Inr ar_predictions \<Rightarrow>
                   (case predict_with_linear_regression e prices days of
                      Inl x \<Rightarrow> ([AutoRegression, LinearRegression], Inl x)
                    | Inr lr_predictions \<Rightarrow>
                        (case predict_with_arima e prices days of
                           Inl x \<Rightarrow> ([AutoRegression, LinearRegression, ARIMA], Inl x)
                         | Inr arima_predictions \<Rightarrow>
                             ([AutoRegression, LinearRegression, ARIMA],
                              prepare_response e symbol' days hist prices
                                ar_predictions lr_predictions arima_predictions)))))"

text \<open>
  Backend, \<^verbatim>\<open>predict_prices\<close> (lines 16--99): the \<^verbatim>\<open>try\<close> block and its handler
  \<^verbatim>\<open>except Exception as e: raise Exception(f"Error predicting prices for {symbol}: {str(e)}")\<close>.
\<close>

definition predict_prices ::
  "env \<Rightarrow> string \<Rightarrow> int \<Rightarrow> predictor list \<times> (exn + PredictionResponse)" where
  "predict_prices e symbol' days =
     (case predict_prices_try e symbol' days of
        (called, Inl x) \<Rightarrow>
          (called, Inl (Exception (''Error predicting prices for '' @ symbol' @ '': '' @ str_exn x)))
      | (called, Inr response) \<Rightarrow> (called, Inr response))"

text \<open>
  Prediction-service, the \<^verbatim>\<open>try\<close> block of \<^verbatim>\<open>predict_prices\<close> from the ensemble on
  (lines 41--94).
\<close>

definition prepare_response_ps ::
  "env \<Rightarrow> string \<Rightarrow> int \<Rightarrow> (int \<times> real) list \<Rightarrow> real list \<Rightarrow>
   real list \<Rightarrow> real list \<Rightarrow> real list \<Rightarrow> exn + PredictionResponse" where
  "prepare_response_ps e symbol' days hist prices ar_predictions lr_predictions arima_predictions =
     (case ensemble_loop ar_predictions lr_predictions arima_predictions [0..<nat days] of
        Inl x \<Rightarrow> Inl x
      | Inr ensemble_predictions \<Rightarrow>
          let confidence_intervals = calculate_confidence_intervals_ps prices ensemble_predictions;
              future = generate_business_dates (fst (last hist)) days;
              current_price' = last prices
          in (case predictions_data_loop current_price' ensemble_predictions confidence_intervals
                    (enumerate 0 (slice_first days future)) of
               Inl x \<Rightarrow> Inl x
             | Inr predictions_data \<Rightarrow>
                 (case calculate_accuracy_metrics prices of
                    Inl x \<Rightarrow> Inl x
                  | Inr accuracy \<Rightarrow>
                      Inr \<lparr>symbol = symbol',
                           current_price = py_round2 current_price',
                           prediction_period = str_int days @ '' business days'',
                           predictions = predictions_data,
                           model_info =
                             \<lparr>methods_used = [''AutoRegression'', ''Linear Regression'', ''ARIMA''],
                              ensemble = ''Weighted average of all methods'',
                              accuracy_metrics = accuracy\<rparr>,
                           timestamp = now e\<rparr>)))"

text \<open>
  Prediction-service, the \<^verbatim>\<open>try\<close> block of \<^verbatim>\<open>predict_prices\<close> (lines 21--94).
  \<^verbatim>\<open>asyncio.gather\<close> starts the three predictors and waits for all of them; it raises the
  exception of a predictor that raised (here: of the first one in the order of the tasks).
\<close>

definition predict_prices_try_ps ::
  "env \<Rightarrow> string \<Rightarrow> int \<Rightarrow> predictor list \<times> (exn + PredictionResponse)" where
  "predict_prices_try_ps e symbol' days =
     (case history e symbol' of
        Inl x \<Rightarrow> ([], Inl x)
      | Inr hist \<Rightarrow>
          if length hist < 50
          then ([], Inl (ValueError (''Insufficient historical data for '' @ symbol')))
          else
            let prices = map snd hist;
                tasks = (predict_with_autoregression_ps e prices days,
                         predict_with_linear_regression_ps e prices days,
                         predict_with_arima_ps e prices days)
            in ([AutoRegression, LinearRegression, ARIMA],
                case tasks of
                  (Inl x, _, _) \<Rightarrow> Inl x
                | (Inr _, Inl x, _) \<Rightarrow> Inl x
                | (Inr _, Inr _, Inl x) \<Rightarrow> Inl x
                | (Inr ar_predictions, Inr lr_predictions, Inr arima_predictions) \<Rightarrow>
                    prepare_response_ps e symbol' days hist prices
                      ar_predictions lr_predictions arima_predictions))"

text \<open>
  Prediction-service, \<^verbatim>\<open>predict_prices\<close> (lines 19--98): the \<^verbatim>\<open>try\<close> block and its handler,
  which logs and then does
  \<^verbatim>\<open>raise Exception(f"Prediction failed for {symbol}: {str(e)}")\<close>.
\<close>

definition predict_prices_ps ::
  "env \<Rightarrow> string \<Rightarrow> int \<Rightarrow> predictor list \<times> (exn + PredictionResponse)" where
  "predict_prices_ps e symbol' days =
     (case predict_prices_try_ps e symbol' days of
        (called, Inl x) \<Rightarrow>
          (called, Inl (Exception (''Prediction failed for '' @ symbol' @ '': '' @ str_exn x)))
      | (called, Inr response) \<Rightarrow> (called, Inr response))"

subsection \<open>The specification's formulas\<close>

text \<open>
  The quantities of the confidence interval and of the accuracy metrics as the
  specification words them, to compare the code with: the daily returns
  \<^verbatim>\<open>(price[t] - price[t-1]) / price[t-1]\<close> over the full series, the mean, and the
  (population) standard deviation.
\<close>

definition daily_returns_spec :: "real list \<Rightarrow> real list" where
  "daily_returns_spec price =
     map (\<lambda>t. (price ! t - price ! (t - 1)) / price ! (t - 1)) [1..<length price]"

definition mean_spec :: "real list \<Rightarrow> real" where
  "mean_spec xs = (\<Sum>x\<leftarrow>xs. x) / real (length xs)"

definition stddev_spec :: "real list \<Rightarrow> real" where
  "stddev_spec xs = sqrt ((\<Sum>x\<leftarrow>xs. (x - mean_spec xs)\<^sup>2) / real (length xs))"

subsection \<open>Example inputs\<close>

text \<open>
  Inputs for the concrete instances below. \<open>trading_day k\<close> is the \<open>k\<close>-th weekday
  counted from Monday 2023-10-30 (ordinal 738823); \<open>trading_day 49\<close> is Friday 2024-01-05
  (ordinal 738890), and the Monday after it has ordinal 738893.
\<close>

definition trading_day :: "nat \<Rightarrow> int" where
  "trading_day k = 738823 + 7 * int (k div 5) + int (k mod 5)"

text \<open>Fifty closes rising by 0.5 a day from 100.0; the last one is 124.5.\<close>

definition rising_history :: "(int \<times> real) list" where
  "rising_history = map (\<lambda>k. (trading_day k, 100 + real k / 2)) [0..<50]"

text \<open>Fifty closes of 100.0, except that the last close is 0.\<close>

definition zero_close_history :: "(int \<times> real) list" where
  "zero_close_history = map (\<lambda>k. (trading_day k, if k = 49 then 0 else 100)) [0..<50]"

text \<open>Forty-nine rows: one fewer than \<^verbatim>\<open>predict_prices\<close> asks for.\<close>

definition short_history :: "(int \<times> real) list" where
  "short_history = map (\<lambda>k. (trading_day k, 100 + real k / 2)) [0..<49]"

text \<open>
  An environment whose market data is \<open>hist\<close> and in which every fit of a model raises,
  so that each predictor takes its fallback.
\<close>

definition failing_fits :: "(int \<times> real) list \<Rightarrow> env" where
  "failing_fits hist =
     \<lparr>history = (\<lambda>_. Inr hist),
      AutoReg_forecast = (\<lambda>_ _ _. Inl (LibraryError ''LinAlgError: Singular matrix'')),
      LinearRegression_fit = (\<lambda>_ _. Inl (LibraryError ''LinAlgError: SVD did not converge'')),
      ARIMA_forecast = (\<lambda>_ _. Inl (LibraryError ''LinAlgError: Schur decomposition failed'')),
      now = ''2024-01-05T18:00:00''\<rparr>"

text \<open>
  Fifty closes, 150.0 for forty days and then falling by 10.0 a day to 60.0, and the
  forecast of four steps that every predictor's fallback, and so the ensemble, gives for
  them: the trend is \<open>(60 - 150) / 10 = -9\<close>.
\<close>

definition falling_prices :: "real list" where
  "falling_prices = map (\<lambda>k. if k < 40 then 150 else 150 - 10 * real (k - 40)) [0..<50]"

definition falling_forecast :: "real list" where
  "falling_forecast = [51, 42, 33, 24]"

text \<open>
  Fifty closes of 100.0, except \<^verbatim>\<open>prices[-31]\<close>, which is 200.0, and the last one, which
  is 129.0: the last price is above \<^verbatim>\<open>prices[-30]\<close> and below the price 30 observations
  before it.
\<close>

definition spike_prices :: "real list" where
  "spike_prices = map (\<lambda>k. if k = 19 then 200 else if k = 49 then 129 else 100) [0..<50]"

section \<open>Properties of the embedding\<close>

subsection \<open>Calendar\<close>

lemma weekday_range: "0 \<le> weekday d \<and> weekday d < 7"
  by (simp add: weekday_def)

lemma weekday_succ: "weekday (d + 1) = (if weekday d = 6 then 0 else weekday d + 1)"
proof -
  have "weekday (d + 1) = (weekday d + 1) mod 7"
    unfolding weekday_def by (simp add: mod_simps add.commute add.left_commute)
  then show ?thesis
    using weekday_range [of d] by auto
qed

lemma skip_weekend_business_day: "weekday (skip_weekend d) \<le> 4"
proof (induction d rule: skip_weekend.induct)
  case (1 d)
  then show ?case by (auto simp: skip_weekend.simps [of d])
qed

lemma skip_weekend_ge: "d \<le> skip_weekend d"
proof (induction d rule: skip_weekend.induct)
  case (1 d)
  then show ?case by (auto simp: skip_weekend.simps [of d])
qed

lemma business_dates_loop_invariant:
  assumes "sorted_wrt (<) bs" "\<forall>b\<in>set bs. b < d \<and> weekday b < 5" "int (length bs) \<le> max 0 n"
  shows "sorted_wrt (<) (business_dates_loop d bs n)
       \<and> (\<forall>b\<in>set (business_dates_loop d bs n). weekday b < 5)
       \<and> length (business_dates_loop d bs n) = nat n
       \<and> (\<forall>b\<in>set (business_dates_loop d bs n). b \<in> set bs \<or> d \<le> b)"
  using assms
proof (induction d bs n rule: business_dates_loop.induct)
  case (1 d bs n)
  show ?case
  proof (cases "int (length bs) < n")
    case False
    with "1.prems" show ?thesis
      by (simp add: business_dates_loop.simps [of d bs n])
  next
    case more: True
    show ?thesis
    proof (cases "weekday d < 5")
      case True
      have "sorted_wrt (<) (bs @ [d])"
        using "1.prems" by (auto simp: sorted_wrt_append)
      moreover have "\<forall>b\<in>set (bs @ [d]). b < d + 1 \<and> weekday b < 5"
        using "1.prems" True by auto
      moreover have "int (length (bs @ [d])) \<le> max 0 n"
        using more by auto
      ultimately have "sorted_wrt (<) (business_dates_loop (d + 1) (bs @ [d]) n)
       \<and> (\<forall>b\<in>set (business_dates_loop (d + 1) (bs @ [d]) n). weekday b < 5)
       \<and> length (business_dates_loop (d + 1) (bs @ [d]) n) = nat n
       \<and> (\<forall>b\<in>set (business_dates_loop (d + 1) (bs @ [d]) n). b \<in> set (bs @ [d]) \<or> d + 1 \<le> b)"
        using "1.IH"(1) [OF more True] by blast
      moreover have "business_dates_loop d bs n = business_dates_loop (d + 1) (bs @ [d]) n"
        using more True by (simp add: business_dates_loop.simps [of d bs n])
      ultimately show ?thesis by auto
    next
      case False
      have "\<forall>b\<in>set bs. b < d + 1 \<and> weekday b < 5"
        using "1.prems" by auto
      then have "sorted_wrt (<) (business_dates_loop (d + 1) bs n)
       \<and> (\<forall>b\<in>set (business_dates_loop (d + 1) bs n). weekday b < 5)
       \<and> length (business_dates_loop (d + 1) bs n) = nat n
       \<and> (\<forall>b\<in>set (business_dates_loop (d + 1) bs n). b \<in> set bs \<or> d + 1 \<le> b)"
        using "1.IH"(2) [OF more False] "1.prems" by blast
      moreover have "business_dates_loop d bs n = business_dates_loop (d + 1) bs n"
        using more False by (simp add: business_dates_loop.simps [of d bs n])
      ultimately show ?thesis by auto
    qed
  qed
qed

lemma generate_business_dates_ok:
  "sorted_wrt (<) (generate_business_dates start n)
   \<and> (\<forall>b\<in>set (generate_business_dates start n). weekday b < 5 \<and> start < b)
   \<and> length (generate_business_dates start n) = nat n"
  using business_dates_loop_invariant [of "[]" "start + 1" n]
  by (auto simp: generate_business_dates_def)

subsection \<open>Fallback, predictors and loops\<close>

lemma length_slice_last: "length (slice_last k xs) = min k (length xs)"
  by (simp add: slice_last_def)

lemma hd_slice_last: "0 < k \<Longrightarrow> k \<le> length xs \<Longrightarrow> hd (slice_last k xs) = xs ! (length xs - k)"
  by (simp add: slice_last_def hd_drop_conv_nth)

lemma last_slice_last: "0 < k \<Longrightarrow> xs \<noteq> [] \<Longrightarrow> last (slice_last k xs) = last xs"
  by (simp add: slice_last_def)

lemma slice_last_nth:
  "k \<le> length xs \<Longrightarrow> slice_last k xs = map (\<lambda>j. xs ! (length xs - k + j)) [0..<k]"
  by (rule nth_equalityI) (simp_all add: slice_last_def)

lemma length_upto_1: "length [1..days] = nat days"
  by simp

lemma simple_trend_prediction_eq:
  assumes "10 \<le> length prices"
  shows "simple_trend_prediction prices days =
         Inr (map (\<lambda>i. prices ! (length prices - 1)
                     + (prices ! (length prices - 1) - prices ! (length prices - 10)) / 10 * of_int i)
                [1..days])"
proof -
  have ne: "prices \<noteq> []" using assms by auto
  have "slice_last 10 prices \<noteq> []"
    using assms length_slice_last [of 10 prices] by (metis length_0_conv min.absorb1 zero_neq_numeral)
  moreover have "length (slice_last 10 prices) = 10"
    using assms by (simp add: length_slice_last)
  moreover have "hd (slice_last 10 prices) = prices ! (length prices - 10)"
    using assms by (simp add: hd_slice_last)
  moreover have "last (slice_last 10 prices) = prices ! (length prices - 1)"
    using ne by (simp add: last_slice_last last_conv_nth)
  moreover have "last prices = prices ! (length prices - 1)"
    using ne by (simp add: last_conv_nth)
  ultimately show ?thesis
    by (simp add: simple_trend_prediction_def Let_def)
qed

lemma simple_trend_prediction_total:
  assumes "prices \<noteq> []"
  shows "\<exists>f. simple_trend_prediction prices days = Inr f \<and> length f = nat days"
proof -
  have "0 < length prices" using assms by simp
  then have "\<not> length prices \<le> length prices - 10" by arith
  then show ?thesis
    by (simp add: simple_trend_prediction_def Let_def slice_last_def)
qed

lemma length_lr_forecast_loop: "length (lr_forecast_loop model n last_prices i k) = k"
  by (induction k arbitrary: last_prices i) (simp_all add: Let_def)

lemma ensemble_loop_eq:
  assumes "\<forall>i\<in>set is. i < length ar \<and> i < length lr \<and> i < length arima"
  shows "ensemble_loop ar lr arima is = Inr (map (\<lambda>i. (ar ! i + lr ! i + arima ! i) / 3) is)"
  using assms by (induction "is") (simp_all add: np_mean_def)

lemma predictions_data_loop_enumerate:
  assumes "cur \<noteq> 0" "k + length ds \<le> length ens"
  shows "predictions_data_loop cur ens ci (enumerate k ds) =
         Inr (map (\<lambda>(i, d). prediction_row cur ens ci i d) (enumerate k ds))"
  using assms by (induction ds arbitrary: k) simp_all

lemma predictions_data_loop_zero:
  assumes "k < length ens" "ds \<noteq> []"
  shows "predictions_data_loop 0 ens ci (enumerate k ds) =
         Inl (ZeroDivisionError ''float division by zero'')"
  using assms by (cases ds) simp_all

lemma calculate_accuracy_metrics_eq:
  assumes "30 \<le> length prices"
  shows "calculate_accuracy_metrics prices =
         Inr \<lparr>recent_volatility_percent =
                py_round2 (np_std (slice_last 30 prices) / np_mean (slice_last 30 prices) * 100),
              trend_direction =
                (if last prices > prices ! (length prices - 30) then ''upward'' else ''downward''),
              data_points_used = length prices\<rparr>"
  using assms by (simp add: calculate_accuracy_metrics_def Let_def)

lemma predict_with_autoregression_total:
  assumes "prices \<noteq> []"
    and "\<forall>f. AutoReg_forecast e prices (min 20 (int (length prices) div 5)) days = Inr f
           \<longrightarrow> length f = nat days"
  shows "\<exists>f. predict_with_autoregression e prices days = Inr f \<and> length f = nat days"
proof (cases "AutoReg_forecast e prices (min 20 (int (length prices) div 5)) days")
  case (Inl x)
  then have "predict_with_autoregression e prices days = simple_trend_prediction prices days"
    by (simp add: predict_with_autoregression_def)
  then show ?thesis
    using simple_trend_prediction_total [OF assms(1), of days] by simp
next
  case (Inr f)
  then have "predict_with_autoregression e prices days = Inr f"
    by (simp add: predict_with_autoregression_def)
  moreover have "length f = nat days"
    using assms(2) Inr by blast
  ultimately show ?thesis by blast
qed

lemma predict_with_linear_regression_cases:
  "predict_with_linear_regression e prices days = simple_trend_prediction prices days
   \<or> (\<exists>model last_prices.
         predict_with_linear_regression e prices days =
         Inr (lr_forecast_loop model (length prices) last_prices 0 (nat days)))"
  unfolding predict_with_linear_regression_def Let_def
  by (simp split: sum.split) blast

lemma predict_with_linear_regression_total:
  assumes "prices \<noteq> []"
  shows "\<exists>f. predict_with_linear_regression e prices days = Inr f \<and> length f = nat days"
  using predict_with_linear_regression_cases [of e prices days]
        simple_trend_prediction_total [OF assms, of days]
  by (metis length_lr_forecast_loop)

lemma predict_with_arima_total:
  assumes "prices \<noteq> []"
    and "\<forall>f. ARIMA_forecast e prices days = Inr f \<longrightarrow> length f = nat days"
  shows "\<exists>f. predict_with_arima e prices days = Inr f \<and> length f = nat days"
proof (cases "ARIMA_forecast e prices days")
  case (Inl x)
  then have "predict_with_arima e prices days = simple_trend_prediction prices days"
    by (simp add: predict_with_arima_def)
  then show ?thesis
    using simple_trend_prediction_total [OF assms(1), of days] by simp
next
  case (Inr f)
  then have "predict_with_arima e prices days = Inr f"
    by (simp add: predict_with_arima_def)
  moreover have "length f = nat days"
    using assms(2) Inr by blast
  ultimately show ?thesis by blast
qed

lemma predict_with_autoregression_ps_eq:
  "predict_with_autoregression e prices days = Inr f \<Longrightarrow>
   predict_with_autoregression_ps e prices days = Inr f"
  by (simp add: predict_with_autoregression_ps_def)

lemma predict_with_linear_regression_ps_eq:
  "predict_with_linear_regression e prices days = Inr f \<Longrightarrow>
   predict_with_linear_regression_ps e prices days = Inr f"
  by (simp add: predict_with_linear_regression_ps_def)

lemma predict_with_arima_ps_eq:
  "predict_with_arima e prices days = Inr f \<Longrightarrow>
   predict_with_arima_ps e prices days = Inr f"
  by (simp add: predict_with_arima_ps_def)

lemma length_future_dates: "length (future_dates last_date days) = nat days"
  by (simp add: future_dates_def)

lemma slice_first_full: "length xs = nat k \<Longrightarrow> slice_first k xs = xs"
  by (auto simp: slice_first_def)

subsection \<open>The response of a run that succeeds\<close>

lemma prepare_response_eq:
  assumes "nat days \<le> length ar" "nat days \<le> length lr" "nat days \<le> length arima"
    and "30 \<le> length prices" "last prices \<noteq> 0"
  defines "ens \<equiv> map (\<lambda>i. (ar ! i + lr ! i + arima ! i) / 3) [0..<nat days]"
  shows "prepare_response e sy days hist prices ar lr arima =
         Inr \<lparr>symbol = sy,
              current_price = py_round2 (last prices),
              prediction_period = str_int days @ '' days'',
              predictions =
                map (\<lambda>(i, d). prediction_row (last prices) ens
                                (calculate_confidence_intervals prices ens) i d)
                  (enumerate 0 (future_dates (fst (last hist)) days)),
              model_info =
                \<lparr>methods_used = [''AutoRegression'', ''Linear Regression'', ''ARIMA''],
                 ensemble = ''Average of all methods'',
                 accuracy_metrics = projr (calculate_accuracy_metrics prices)\<rparr>,
              timestamp = now e\<rparr>"
proof -
  have "ensemble_loop ar lr arima [0..<nat days] = Inr ens"
    unfolding ens_def using assms(1-3) by (intro ensemble_loop_eq) auto
  moreover have "length ens = nat days"
    by (simp add: ens_def)
  then have "predictions_data_loop (last prices) ens (calculate_confidence_intervals prices ens)
               (enumerate 0 (future_dates (fst (last hist)) days)) =
             Inr (map (\<lambda>(i, d). prediction_row (last prices) ens
                                (calculate_confidence_intervals prices ens) i d)
                  (enumerate 0 (future_dates (fst (last hist)) days)))"
    using assms(5) by (intro predictions_data_loop_enumerate) (simp_all add: length_future_dates)
  moreover obtain m where "calculate_accuracy_metrics prices = Inr m"
    using calculate_accuracy_metrics_eq [OF assms(4)] by blast
  ultimately show ?thesis
    by (simp add: prepare_response_def Let_def)
qed

lemma prepare_response_ps_eq:
  assumes "nat days \<le> length ar" "nat days \<le> length lr" "nat days \<le> length arima"
    and "30 \<le> length prices" "last prices \<noteq> 0"
  defines "ens \<equiv> map (\<lambda>i. (ar ! i + lr ! i + arima ! i) / 3) [0..<nat days]"
  shows "prepare_response_ps e sy days hist prices ar lr arima =
         Inr \<lparr>symbol = sy,
              current_price = py_round2 (last prices),
              prediction_period = str_int days @ '' business days'',
              predictions =
                map (\<lambda>(i, d). prediction_row (last prices) ens
                                (calculate_confidence_intervals_ps prices ens) i d)
                  (enumerate 0 (generate_business_dates (fst (last hist)) days)),
              model_info =
                \<lparr>methods_used = [''AutoRegression'', ''Linear Regression'', ''ARIMA''],
                 ensemble = ''Weighted average of all methods'',
                 accuracy_metrics = projr (calculate_accuracy_metrics prices)\<rparr>,
              timestamp = now e\<rparr>"
proof -
  have len: "length (generate_business_dates (fst (last hist)) days) = nat days"
    using generate_business_dates_ok by blast
  have sl: "slice_first days (generate_business_dates (fst (last hist)) days)
            = generate_business_dates (fst (last hist)) days"
    using len by (rule slice_first_full)
  have "ensemble_loop ar lr arima [0..<nat days] = Inr ens"
    unfolding ens_def using assms(1-3) by (intro ensemble_loop_eq) auto
  moreover have "length ens = nat days"
    by (simp add: ens_def)
  then have "predictions_data_loop (last prices) ens (calculate_confidence_intervals_ps prices ens)
               (enumerate 0 (generate_business_dates (fst (last hist)) days)) =
             Inr (map (\<lambda>(i, d). prediction_row (last prices) ens
                                (calculate_confidence_intervals_ps prices ens) i d)
                  (enumerate 0 (generate_business_dates (fst (last hist)) days)))"
    using assms(5) len by (intro predictions_data_loop_enumerate) simp_all
  moreover obtain m where "calculate_accuracy_metrics prices = Inr m"
    using calculate_accuracy_metrics_eq [OF assms(4)] by blast
  ultimately show ?thesis
    by (simp add: prepare_response_ps_def Let_def sl)
qed

lemma predict_prices_try_eq:
  assumes "history e sy = Inr hist" "50 \<le> length hist"
    and "predict_with_autoregression e (map snd hist) days = Inr ar"
    and "predict_with_linear_regression e (map snd hist) days = Inr lr"
    and "predict_with_arima e (map snd hist) days = Inr arima"
  shows "predict_prices_try e sy days =
         ([AutoRegression, LinearRegression, ARIMA],
          prepare_response e sy days hist (map snd hist) ar lr arima)"
  using assms by (simp add: predict_prices_try_def Let_def)

lemma predict_prices_try_ps_eq:
  assumes "history e sy = Inr hist" "50 \<le> length hist"
    and "predict_with_autoregression e (map snd hist) days = Inr ar"
    and "predict_with_linear_regression e (map snd hist) days = Inr lr"
    and "predict_with_arima e (map snd hist) days = Inr arima"
  shows "predict_prices_try_ps e sy days =
         ([AutoRegression, LinearRegression, ARIMA],
          prepare_response_ps e sy days hist (map snd hist) ar lr arima)"
  using assms
  by (simp add: predict_prices_try_ps_def Let_def predict_with_autoregression_ps_eq
        predict_with_linear_regression_ps_eq predict_with_arima_ps_eq)

lemma map_date_prediction_rows:
  "map date (map (\<lambda>(i, d). prediction_row cur ens ci i d) (enumerate k ds)) = ds"
  "map (date \<circ> (\<lambda>(i, d). prediction_row cur ens ci i d)) (enumerate k ds) = ds"
  by (induction ds arbitrary: k) (simp_all add: prediction_row_def Let_def)

lemma failing_fits_predictors:
  "predict_with_autoregression (failing_fits hist) prices days = simple_trend_prediction prices days"
  "predict_with_linear_regression (failing_fits hist) prices days = simple_trend_prediction prices days"
  "predict_with_arima (failing_fits hist) prices days = simple_trend_prediction prices days"
  by (simp_all add: failing_fits_def predict_with_autoregression_def
        predict_with_linear_regression_def predict_with_arima_def Let_def)

lemma rising_history_facts:
  "length rising_history = 50" "fst (last rising_history) = 738890"
  "last (map snd rising_history) = 249 / 2" "\<forall>p\<in>set (map snd rising_history). 0 < p"
  by (simp_all add: rising_history_def last_map trading_day_def)

lemma predict_prices_run:
  assumes "history e sy = Inr hist" "50 \<le> length hist" "last (map snd hist) \<noteq> 0"
    and "\<forall>f. AutoReg_forecast e (map snd hist) (min 20 (int (length (map snd hist)) div 5)) days
              = Inr f \<longrightarrow> length f = nat days"
    and "\<forall>f. ARIMA_forecast e (map snd hist) days = Inr f \<longrightarrow> length f = nat days"
  shows "\<exists>ar lr arima.
           predict_with_autoregression e (map snd hist) days = Inr ar \<and> length ar = nat days
         \<and> predict_with_linear_regression e (map snd hist) days = Inr lr \<and> length lr = nat days
         \<and> predict_with_arima e (map snd hist) days = Inr arima \<and> length arima = nat days
         \<and> predict_prices e sy days =
             ([AutoRegression, LinearRegression, ARIMA],
              prepare_response e sy days hist (map snd hist) ar lr arima)
         \<and> predict_prices_ps e sy days =
             ([AutoRegression, LinearRegression, ARIMA],
              prepare_response_ps e sy days hist (map snd hist) ar lr arima)"
proof -
  have ne: "map snd hist \<noteq> []" using assms(2) by auto
  have l30: "30 \<le> length (map snd hist)" using assms(2) by simp
  obtain ar where ar: "predict_with_autoregression e (map snd hist) days = Inr ar"
      "length ar = nat days"
    using predict_with_autoregression_total [OF ne assms(4)] by blast
  obtain lr where lr: "predict_with_linear_regression e (map snd hist) days = Inr lr"
      "length lr = nat days"
    using predict_with_linear_regression_total [OF ne] by blast
  obtain arima where arima: "predict_with_arima e (map snd hist) days = Inr arima"
      "length arima = nat days"
    using predict_with_arima_total [OF ne assms(5)] by blast
  obtain r where r: "prepare_response e sy days hist (map snd hist) ar lr arima = Inr r"
    using prepare_response_eq [of days ar lr arima "map snd hist" e sy hist]
      ar(2) lr(2) arima(2) l30 assms(3) by simp
  obtain r' where r': "prepare_response_ps e sy days hist (map snd hist) ar lr arima = Inr r'"
    using prepare_response_ps_eq [of days ar lr arima "map snd hist" e sy hist]
      ar(2) lr(2) arima(2) l30 assms(3) by simp
  have "predict_prices e sy days =
          ([AutoRegression, LinearRegression, ARIMA],
           prepare_response e sy days hist (map snd hist) ar lr arima)"
    using predict_prices_try_eq [OF assms(1,2) ar(1) lr(1) arima(1)] r
    by (simp add: predict_prices_def)
  moreover have "predict_prices_ps e sy days =
          ([AutoRegression, LinearRegression, ARIMA],
           prepare_response_ps e sy days hist (map snd hist) ar lr arima)"
    using predict_prices_try_ps_eq [OF assms(1,2) ar(1) lr(1) arima(1)] r'
    by (simp add: predict_prices_ps_def)
  ultimately show ?thesis
    using ar lr arima by blast
qed

subsection \<open>The example inputs\<close>

lemma future_dates_after_friday: "future_dates 738890 3 = [738893, 738893, 738893]"
  by code_simp

lemma generate_business_dates_after_friday: "generate_business_dates 738890 3 = [738893, 738894, 738895]"
  by code_simp

lemma failing_fits_history: "history (failing_fits hist) sy = Inr hist"
  by (simp add: failing_fits_def)

lemma failing_fits_contract:
  "\<forall>f. AutoReg_forecast (failing_fits hist) prices lags days = Inr f \<longrightarrow> length f = nat days"
  "\<forall>f. ARIMA_forecast (failing_fits hist) prices days = Inr f \<longrightarrow> length f = nat days"
  by (simp_all add: failing_fits_def)

lemma prepare_response_dates:
  assumes "length ar = nat days" "length lr = nat days" "length arima = nat days"
    and "30 \<le> length prices" "last prices \<noteq> 0"
  shows "\<exists>r. prepare_response e sy days hist prices ar lr arima = Inr r
           \<and> map date (predictions r) = future_dates (fst (last hist)) days"
proof -
  have a: "nat days \<le> length ar" "nat days \<le> length lr" "nat days \<le> length arima"
    using assms(1-3) by simp_all
  show ?thesis
    by (subst prepare_response_eq [OF a assms(4,5)])
       (simp add: map_date_prediction_rows(2))
qed

lemma prepare_response_ps_dates:
  assumes "length ar = nat days" "length lr = nat days" "length arima = nat days"
    and "30 \<le> length prices" "last prices \<noteq> 0"
  shows "\<exists>r. prepare_response_ps e sy days hist prices ar lr arima = Inr r
           \<and> map date (predictions r) = generate_business_dates (fst (last hist)) days"
proof -
  have a: "nat days \<le> length ar" "nat days \<le> length lr" "nat days \<le> length arima"
    using assms(1-3) by simp_all
  show ?thesis
    by (subst prepare_response_ps_eq [OF a assms(4,5)])
       (simp add: map_date_prediction_rows(2))
qed

lemma prediction_service_dates:
  assumes "history e sy = Inr hist" "50 \<le> length hist" "last (map snd hist) \<noteq> 0"
    and "\<forall>f. AutoReg_forecast e (map snd hist) (min 20 (int (length (map snd hist)) div 5)) days
              = Inr f \<longrightarrow> length f = nat days"
    and "\<forall>f. ARIMA_forecast e (map snd hist) days = Inr f \<longrightarrow> length f = nat days"
  shows "\<exists>r. snd (predict_prices_ps e sy days) = Inr r
            \<and> length (predictions r) = nat days
            \<and> sorted_wrt (<) (map date (predictions r))
            \<and> (\<forall>d\<in>set (map date (predictions r)). weekday d < 5 \<and> fst (last hist) < d)"
proof -
  obtain ar lr arima where run:
      "length ar = nat days" "length lr = nat days" "length arima = nat days"
      "predict_prices_ps e sy days =
         ([AutoRegression, LinearRegression, ARIMA],
          prepare_response_ps e sy days hist (map snd hist) ar lr arima)"
    using predict_prices_run [OF assms] by blast
  have l30: "30 \<le> length (map snd hist)" using assms(2) by simp
  obtain r where r: "prepare_response_ps e sy days hist (map snd hist) ar lr arima = Inr r"
      and d: "map date (predictions r) = generate_business_dates (fst (last hist)) days"
    using prepare_response_ps_dates [OF run(1-3) l30 assms(3)] by blast
  note ok = generate_business_dates_ok [of "fst (last hist)" days]
  have "length (map date (predictions r)) = nat days"
    unfolding d using ok by simp
  then have 1: "length (predictions r) = nat days" by simp
  have 2: "snd (predict_prices_ps e sy days) = Inr r"
    using run(4) r by simp
  have 3: "sorted_wrt (<) (map date (predictions r))"
    unfolding d using ok by simp
  have 4: "\<forall>d\<in>set (map date (predictions r)). weekday d < 5 \<and> fst (last hist) < d"
    unfolding d using ok by simp
  show ?thesis
    using 1 2 3 4 by (intro exI [of _ r] conjI)
qed

lemma backend_dates:
  assumes "history e sy = Inr hist" "50 \<le> length hist" "last (map snd hist) \<noteq> 0"
    and "\<forall>f. AutoReg_forecast e (map snd hist) (min 20 (int (length (map snd hist)) div 5)) days
              = Inr f \<longrightarrow> length f = nat days"
    and "\<forall>f. ARIMA_forecast e (map snd hist) days = Inr f \<longrightarrow> length f = nat days"
  shows "\<exists>r. snd (predict_prices e sy days) = Inr r
            \<and> length (predictions r) = nat days
            \<and> (\<forall>d\<in>set (map date (predictions r)). weekday d < 5 \<and> fst (last hist) < d)"
proof -
  obtain ar lr arima where run:
      "length ar = nat days" "length lr = nat days" "length arima = nat days"
      "predict_prices e sy days =
         ([AutoRegression, LinearRegression, ARIMA],
          prepare_response e sy days hist (map snd hist) ar lr arima)"
    using predict_prices_run [OF assms] by blast
  have l30: "30 \<le> length (map snd hist)" using assms(2) by simp
  obtain r where r: "prepare_response e sy days hist (map snd hist) ar lr arima = Inr r"
      and d: "map date (predictions r) = future_dates (fst (last hist)) days"
    using prepare_response_dates [OF run(1-3) l30 assms(3)] by blast
  have "length (map date (predictions r)) = nat days"
    unfolding d by (rule length_future_dates)
  then have 1: "length (predictions r) = nat days" by simp
  have 2: "snd (predict_prices e sy days) = Inr r"
    using run(4) r by simp
  have 3: "\<forall>d\<in>set (map date (predictions r)). weekday d < 5 \<and> fst (last hist) < d"
  proof
    fix x assume "x \<in> set (map date (predictions r))"
    then obtain i where i: "1 \<le> i" "x = skip_weekend (fst (last hist) + i)"
      unfolding d future_dates_def by auto
    have "weekday x \<le> 4" unfolding i(2) by (rule skip_weekend_business_day)
    moreover have "fst (last hist) + i \<le> x" unfolding i(2) by (rule skip_weekend_ge)
    ultimately show "weekday x < 5 \<and> fst (last hist) < x" using i(1) by simp
  qed
  show ?thesis
    using 1 2 3 by (intro exI [of _ r] conjI)
qed

section \<open>The claims\<close>

subsection \<open>C1: length and dates of the forecast\<close>

text \<open>
  Claim C1: for a series of at least 50 observations and a positive horizon \<open>days\<close> the
  forecast has exactly \<open>days\<close> records, whose dates are strictly increasing and fall on
  business days.

  The prediction-service does this (\<open>prediction_service_dates\<close> above). The backend
  gives \<open>days\<close> records on business days (\<open>backend_dates\<close> above), but not on strictly
  increasing ones: it takes the date \<open>i\<close> calendar days after the last observation and moves it to the
  next Monday when it falls on a weekend, so a Saturday, the Sunday after it and that Monday
  all give the same date. For a history that ends on Friday 2024-01-05 (ordinal 738890) and
  \<open>days = 3\<close> the backend's three records all carry Monday 2024-01-08 (738893), where the
  prediction-service gives Monday, Tuesday and Wednesday.
\<close>

theorem backend_dates_repeat:
  "map_sum id (map date \<circ> predictions)
     (snd (predict_prices (failing_fits rising_history) ''AAPL'' 3))
   = Inr [738893, 738893, 738893]
   \<and> map_sum id (map date \<circ> predictions)
     (snd (predict_prices_ps (failing_fits rising_history) ''AAPL'' 3))
   = Inr [738893, 738894, 738895]"
proof -
  have nz: "last (map snd rising_history) \<noteq> 0"
    by (simp add: rising_history_facts(3))
  have len: "50 \<le> length rising_history"
    by (simp add: rising_history_facts(1))
  obtain ar lr arima where run:
      "length ar = nat 3" "length lr = nat 3" "length arima = nat 3"
      "predict_prices (failing_fits rising_history) ''AAPL'' 3 =
         ([AutoRegression, LinearRegression, ARIMA],
          prepare_response (failing_fits rising_history) ''AAPL'' 3 rising_history
            (map snd rising_history) ar lr arima)"
      "predict_prices_ps (failing_fits rising_history) ''AAPL'' 3 =
         ([AutoRegression, LinearRegression, ARIMA],
          prepare_response_ps (failing_fits rising_history) ''AAPL'' 3 rising_history
            (map snd rising_history) ar lr arima)"
    using predict_prices_run [where e = "failing_fits rising_history" and sy = "''AAPL''"
        and hist = rising_history and days = 3,
        OF failing_fits_history len nz failing_fits_contract]
    by blast
  have l30: "30 \<le> length (map snd rising_history)"
    by (simp add: rising_history_facts(1))
  obtain r where r: "prepare_response (failing_fits rising_history) ''AAPL'' 3 rising_history
            (map snd rising_history) ar lr arima = Inr r"
      and d: "map date (predictions r) = future_dates (fst (last rising_history)) 3"
    using prepare_response_dates [OF run(1-3) l30 nz] by blast
  obtain r' where r': "prepare_response_ps (failing_fits rising_history) ''AAPL'' 3 rising_history
            (map snd rising_history) ar lr arima = Inr r'"
      and d': "map date (predictions r') = generate_business_dates (fst (last rising_history)) 3"
    using prepare_response_ps_dates [OF run(1-3) l30 nz] by blast
  have "map date (predictions r) = [738893, 738893, 738893]"
    unfolding d rising_history_facts(2) by (rule future_dates_after_friday)
  moreover have "map date (predictions r') = [738893, 738894, 738895]"
    unfolding d' rising_history_facts(2) by (rule generate_business_dates_after_friday)
  ultimately show ?thesis
    unfolding run(4,5) by (simp add: r r')
qed

subsection \<open>C2: the trend fallback\<close>

lemma predict_prices_length:
  assumes "history e sy = Inr hist" "50 \<le> length hist" "last (map snd hist) \<noteq> 0"
    and "\<forall>f. AutoReg_forecast e (map snd hist) (min 20 (int (length (map snd hist)) div 5)) days
              = Inr f \<longrightarrow> length f = nat days"
    and "\<forall>f. ARIMA_forecast e (map snd hist) days = Inr f \<longrightarrow> length f = nat days"
  shows "\<exists>r. snd (predict_prices e sy days) = Inr r \<and> length (predictions r) = nat days"
proof -
  obtain ar lr arima where run:
      "length ar = nat days" "length lr = nat days" "length arima = nat days"
      "predict_prices e sy days =
         ([AutoRegression, LinearRegression, ARIMA],
          prepare_response e sy days hist (map snd hist) ar lr arima)"
    using predict_prices_run [OF assms] by blast
  have l30: "30 \<le> length (map snd hist)" using assms(2) by simp
  obtain r where r: "prepare_response e sy days hist (map snd hist) ar lr arima = Inr r"
      and d: "map date (predictions r) = future_dates (fst (last hist)) days"
    using prepare_response_dates [OF run(1-3) l30 assms(3)] by blast
  have "length (map date (predictions r)) = nat days"
    unfolding d by (rule length_future_dates)
  then have "length (predictions r) = nat days" by simp
  moreover have "snd (predict_prices e sy days) = Inr r"
    using run(4) r by simp
  ultimately show ?thesis by blast
qed

lemma positive_last_nonzero:
  assumes "\<forall>p\<in>set xs. (0::real) < p" "xs \<noteq> []"
  shows "last xs \<noteq> 0"
  using assms last_in_set [OF assms(2)] by fastforce

text \<open>
  Claim C2: for a series of at least 50 observations, a predictor whose fit or forecast
  raises returns exactly the trend fallback, whose step \<open>i\<close> (counted from 1) is
  \<^verbatim>\<open>series[-1] + ((series[-1] - series[-10]) / 10) * i\<close>; the fallback does not raise; and
  the forecast completes with \<open>days\<close> records.

  The series is the \<^verbatim>\<open>Close\<close> column of the history, of positive prices as the data
  model has it (a last price of 0 makes the percentage change raise, see C6). A fit that
  returns is taken to return \<open>days\<close> values, as \<^verbatim>\<open>forecast(steps=days)\<close> does. The three
  implications are about the autoregressive, the feature-regression and the ARIMA
  predictor, in the backend and behind the wrappers of the prediction-service.
\<close>

theorem fallback_on_failure:
  assumes "history e sy = Inr hist" and "50 \<le> length hist"
    and "\<forall>p\<in>set (map snd hist). 0 < p"
    and "\<forall>f. AutoReg_forecast e (map snd hist) (min 20 (int (length (map snd hist)) div 5)) days
              = Inr f \<longrightarrow> length f = nat days"
    and "\<forall>f. ARIMA_forecast e (map snd hist) days = Inr f \<longrightarrow> length f = nat days"
  shows "simple_trend_prediction (map snd hist) days =
           Inr (map (\<lambda>i. map snd hist ! (length hist - 1)
                       + (map snd hist ! (length hist - 1) - map snd hist ! (length hist - 10)) / 10
                         * of_int i)
                  [1..days])
       \<and> (\<forall>x. AutoReg_forecast e (map snd hist) (min 20 (int (length (map snd hist)) div 5)) days
                = Inl x \<longrightarrow>
              predict_with_autoregression e (map snd hist) days
                = simple_trend_prediction (map snd hist) days
            \<and> predict_with_autoregression_ps e (map snd hist) days
                = simple_trend_prediction (map snd hist) days)
       \<and> (\<forall>x. LinearRegression_fit e
                (map (\<lambda>(price, ma_5, ma_10, ma_20, trend). [ma_5, ma_10, ma_20, real trend])
                   (dropna (feature_table (map snd hist))))
                (map (\<lambda>(price, ma_5, ma_10, ma_20, trend). price)
                   (dropna (feature_table (map snd hist))))
                = Inl x \<longrightarrow>
              predict_with_linear_regression e (map snd hist) days
                = simple_trend_prediction (map snd hist) days
            \<and> predict_with_linear_regression_ps e (map snd hist) days
                = simple_trend_prediction (map snd hist) days)
       \<and> (\<forall>x. ARIMA_forecast e (map snd hist) days = Inl x \<longrightarrow>
              predict_with_arima e (map snd hist) days
                = simple_trend_prediction (map snd hist) days
            \<and> predict_with_arima_ps e (map snd hist) days
                = simple_trend_prediction (map snd hist) days)
       \<and> (\<exists>r. snd (predict_prices e sy days) = Inr r \<and> length (predictions r) = nat days)
       \<and> (\<exists>r. snd (predict_prices_ps e sy days) = Inr r \<and> length (predictions r) = nat days)"
proof -
  have l10: "10 \<le> length (map snd hist)" using assms(2) by simp
  have ne: "map snd hist \<noteq> []" using assms(2) by auto
  have nz: "last (map snd hist) \<noteq> 0"
    using positive_last_nonzero [OF assms(3) ne] .
  have fb: "simple_trend_prediction (map snd hist) days =
           Inr (map (\<lambda>i. map snd hist ! (length hist - 1)
                       + (map snd hist ! (length hist - 1) - map snd hist ! (length hist - 10)) / 10
                         * of_int i)
                  [1..days])"
    using simple_trend_prediction_eq [OF l10, of days] by simp
  have ar: "predict_with_autoregression e (map snd hist) days
                = simple_trend_prediction (map snd hist) days
            \<and> predict_with_autoregression_ps e (map snd hist) days
                = simple_trend_prediction (map snd hist) days"
    if "AutoReg_forecast e (map snd hist) (min 20 (int (length (map snd hist)) div 5)) days = Inl x"
    for x
    using that fb
    by (simp add: predict_with_autoregression_ps_def predict_with_autoregression_def)
  have lr: "predict_with_linear_regression e (map snd hist) days
                = simple_trend_prediction (map snd hist) days
            \<and> predict_with_linear_regression_ps e (map snd hist) days
                = simple_trend_prediction (map snd hist) days"
    if "LinearRegression_fit e
                (map (\<lambda>(price, ma_5, ma_10, ma_20, trend). [ma_5, ma_10, ma_20, real trend])
                   (dropna (feature_table (map snd hist))))
                (map (\<lambda>(price, ma_5, ma_10, ma_20, trend). price)
                   (dropna (feature_table (map snd hist))))
                = Inl x"
    for x
    using that fb
    by (simp add: predict_with_linear_regression_ps_def predict_with_linear_regression_def)
  have arima: "predict_with_arima e (map snd hist) days
                = simple_trend_prediction (map snd hist) days
            \<and> predict_with_arima_ps e (map snd hist) days
                = simple_trend_prediction (map snd hist) days"
    if "ARIMA_forecast e (map snd hist) days = Inl x" for x
    using that fb
    by (simp add: predict_with_arima_ps_def predict_with_arima_def)
  have run: "\<exists>r. snd (predict_prices e sy days) = Inr r \<and> length (predictions r) = nat days"
    using predict_prices_length [OF assms(1,2) nz assms(4,5)] .
  have run_ps: "\<exists>r. snd (predict_prices_ps e sy days) = Inr r \<and> length (predictions r) = nat days"
    using prediction_service_dates [OF assms(1,2) nz assms(4,5)] by blast
  show ?thesis
    using fb ar lr arima run run_ps by (intro conjI allI impI) blast+
qed

lemma rising_history_nth:
  "map snd rising_history ! (length rising_history - 1) = 249 / 2"
  "map snd rising_history ! (length rising_history - 10) = 120"
  by (simp_all add: rising_history_def)

text \<open>
  An instance: fifty closes rising from 100.0 to 124.5 and every fit raising. The trend is
  \<open>(124.5 - 120.0) / 10 = 0.45\<close> and the three steps are 124.95, 125.4 and 125.85.
\<close>

theorem fallback_on_failure_witness:
  "predict_with_autoregression (failing_fits rising_history) (map snd rising_history) 3
     = Inr [2499 / 20, 627 / 5, 2517 / 20]
   \<and> predict_with_linear_regression_ps (failing_fits rising_history) (map snd rising_history) 3
     = Inr [2499 / 20, 627 / 5, 2517 / 20]
   \<and> predict_with_arima (failing_fits rising_history) (map snd rising_history) 3
     = Inr [2499 / 20, 627 / 5, 2517 / 20]
   \<and> map_sum id (length \<circ> predictions)
        (snd (predict_prices (failing_fits rising_history) ''AAPL'' 3)) = Inr 3
   \<and> map_sum id (length \<circ> predictions)
        (snd (predict_prices_ps (failing_fits rising_history) ''AAPL'' 3)) = Inr 3"
proof -
  have len: "50 \<le> length rising_history"
    by (simp add: rising_history_facts(1))
  note inst = fallback_on_failure [where e = "failing_fits rising_history" and sy = "''AAPL''"
      and hist = rising_history and days = 3,
      OF failing_fits_history len rising_history_facts(4) failing_fits_contract]
  have up: "[1..3::int] = [1, 2, 3]"
    by code_simp
  have fb: "simple_trend_prediction (map snd rising_history) 3 = Inr [2499 / 20, 627 / 5, 2517 / 20]"
    using inst unfolding rising_history_nth up by simp
  have raises:
    "AutoReg_forecast (failing_fits rising_history) (map snd rising_history)
       (min 20 (int (length (map snd rising_history)) div 5)) 3
     = Inl (LibraryError ''LinAlgError: Singular matrix'')"
    "LinearRegression_fit (failing_fits rising_history)
       (map (\<lambda>(price, ma_5, ma_10, ma_20, trend). [ma_5, ma_10, ma_20, real trend])
          (dropna (feature_table (map snd rising_history))))
       (map (\<lambda>(price, ma_5, ma_10, ma_20, trend). price)
          (dropna (feature_table (map snd rising_history))))
     = Inl (LibraryError ''LinAlgError: SVD did not converge'')"
    "ARIMA_forecast (failing_fits rising_history) (map snd rising_history) 3
     = Inl (LibraryError ''LinAlgError: Schur decomposition failed'')"
    by (simp_all add: failing_fits_def)
  have 1: "predict_with_autoregression (failing_fits rising_history) (map snd rising_history) 3
     = Inr [2499 / 20, 627 / 5, 2517 / 20]"
    using inst raises(1) fb by metis
  have 2: "predict_with_linear_regression_ps (failing_fits rising_history) (map snd rising_history) 3
     = Inr [2499 / 20, 627 / 5, 2517 / 20]"
    using inst raises(2) fb by metis
  have 3: "predict_with_arima (failing_fits rising_history) (map snd rising_history) 3
     = Inr [2499 / 20, 627 / 5, 2517 / 20]"
    using inst raises(3) fb by metis
  obtain r where r: "snd (predict_prices (failing_fits rising_history) ''AAPL'' 3) = Inr r"
      "length (predictions r) = nat 3"
    using inst by blast
  obtain r' where r': "snd (predict_prices_ps (failing_fits rising_history) ''AAPL'' 3) = Inr r'"
      "length (predictions r') = nat 3"
    using inst by blast
  show ?thesis
    using 1 2 3 r r' by simp
qed

subsection \<open>Confidence intervals: the code and the specification's formulas\<close>

lemma np_mean_spec: "np_mean xs = mean_spec xs"
  by (simp add: np_mean_def mean_spec_def)

lemma np_std_spec: "np_std xs = stddev_spec xs"
  by (simp add: np_std_def stddev_spec_def np_mean_def mean_spec_def)

lemma returns_spec:
  "map (\<lambda>(d, p). d / p) (zip (np_diff prices) (butlast prices)) = daily_returns_spec prices"
proof (rule nth_equalityI)
  show "length (map (\<lambda>(d, p). d / p) (zip (np_diff prices) (butlast prices)))
        = length (daily_returns_spec prices)"
    by (simp add: np_diff_def daily_returns_spec_def)
next
  fix i
  assume "i < length (map (\<lambda>(d, p). d / p) (zip (np_diff prices) (butlast prices)))"
  then have i: "i < length prices - 1"
    by (simp add: np_diff_def)
  then show "map (\<lambda>(d, p). d / p) (zip (np_diff prices) (butlast prices)) ! i
             = daily_returns_spec prices ! i"
    by (simp add: np_diff_def daily_returns_spec_def nth_butlast nth_tl)
qed

lemma length_calculate_confidence_intervals:
  "length (calculate_confidence_intervals prices preds) = length preds"
  "length (calculate_confidence_intervals_ps prices preds) = length preds"
  by (simp_all add: calculate_confidence_intervals_def calculate_confidence_intervals_ps_def Let_def)

lemma calculate_confidence_intervals_nth:
  assumes "i < length preds"
  shows "calculate_confidence_intervals prices preds ! i =
           (preds ! i
              - 1.96 * (stddev_spec (daily_returns_spec prices) * sqrt (real (i + 1)) * preds ! i),
            preds ! i
              + 1.96 * (stddev_spec (daily_returns_spec prices) * sqrt (real (i + 1)) * preds ! i))"
  using assms
  by (simp add: calculate_confidence_intervals_def Let_def returns_spec np_std_spec nth_enumerate_eq)

lemma calculate_confidence_intervals_ps_nth:
  assumes "i < length preds"
  shows "calculate_confidence_intervals_ps prices preds ! i =
           (preds ! i
              - 1.96 * (stddev_spec (daily_returns_spec prices) * sqrt (real (i + 1)) * preds ! i * 0.1),
            preds ! i
              + 1.96 * (stddev_spec (daily_returns_spec prices) * sqrt (real (i + 1)) * preds ! i * 0.1))"
  using assms
  by (simp add: calculate_confidence_intervals_ps_def Let_def returns_spec np_std_spec nth_enumerate_eq)

lemma stddev_spec_nonneg: "0 \<le> stddev_spec xs"
proof -
  have "0 \<le> (\<Sum>x\<leftarrow>xs. (x - mean_spec xs)\<^sup>2)"
    by (rule sum_list_nonneg) auto
  then show ?thesis
    by (simp add: stddev_spec_def)
qed

lemma member_le_sum_list_real:
  assumes "\<forall>y\<in>set ys. (0::real) \<le> y" "y \<in> set ys"
  shows "y \<le> sum_list ys"
  using assms
proof (induction ys)
  case Nil
  then show ?case by simp
next
  case (Cons a ys)
  have "0 \<le> sum_list ys" using Cons.prems(1) by (simp add: sum_list_nonneg)
  then show ?case using Cons by auto
qed

lemma stddev_spec_pos:
  assumes "x \<in> set xs" "y \<in> set xs" "x \<noteq> y"
  shows "0 < stddev_spec xs"
proof -
  obtain z where z: "z \<in> set xs" "z \<noteq> mean_spec xs"
    using assms by metis
  have "0 < (z - mean_spec xs)\<^sup>2" using z(2) by simp
  moreover have "(z - mean_spec xs)\<^sup>2 \<le> (\<Sum>x\<leftarrow>xs. (x - mean_spec xs)\<^sup>2)"
    using z(1) by (intro member_le_sum_list_real) auto
  ultimately have "0 < (\<Sum>x\<leftarrow>xs. (x - mean_spec xs)\<^sup>2)" by linarith
  moreover have "0 < length xs" using z(1) by (cases xs) auto
  ultimately show ?thesis
    by (simp add: stddev_spec_def)
qed

lemma interval_width:
  assumes "i < length preds"
  shows "snd (calculate_confidence_intervals prices preds ! i)
           - fst (calculate_confidence_intervals prices preds ! i)
         = 2 * 1.96 * stddev_spec (daily_returns_spec prices) * (sqrt (real (i + 1)) * preds ! i)"
    and "snd (calculate_confidence_intervals_ps prices preds ! i)
           - fst (calculate_confidence_intervals_ps prices preds ! i)
         = 2 * 1.96 * 0.1 * stddev_spec (daily_returns_spec prices) * (sqrt (real (i + 1)) * preds ! i)"
  using assms
  by (simp_all add: calculate_confidence_intervals_nth calculate_confidence_intervals_ps_nth)

lemma falling_prices_positive: "\<forall>p\<in>set falling_prices. 0 < p"
proof
  fix p assume "p \<in> set falling_prices"
  then have "p \<in> (\<lambda>k. if k < 40 then 150 else 150 - 10 * real (k - 40)) ` {0..<50}"
    by (simp add: falling_prices_def)
  then obtain k where k: "k < 50" "p = (if k < 40 then 150 else 150 - 10 * real (k - 40))"
    by (elim imageE) simp
  then show "0 < p" by auto
qed

lemma falling_prices_volatile: "0 < stddev_spec (daily_returns_spec falling_prices)"
proof -
  have len: "length (daily_returns_spec falling_prices) = 49"
    by (simp add: daily_returns_spec_def falling_prices_def)
  have r0: "daily_returns_spec falling_prices ! 0 = 0"
    by (simp add: daily_returns_spec_def falling_prices_def)
  have r40: "daily_returns_spec falling_prices ! 40 = - (1 / 15)"
    by (simp add: daily_returns_spec_def falling_prices_def)
  have "daily_returns_spec falling_prices ! 0 \<in> set (daily_returns_spec falling_prices)"
    by (rule nth_mem) (simp add: len)
  moreover have "daily_returns_spec falling_prices ! 40 \<in> set (daily_returns_spec falling_prices)"
    by (rule nth_mem) (simp add: len)
  moreover have "daily_returns_spec falling_prices ! 0 \<noteq> daily_returns_spec falling_prices ! 40"
    unfolding r0 r40 by simp
  ultimately show ?thesis by (rule stddev_spec_pos)
qed

lemma falling_forecast_is_the_ensemble:
  "simple_trend_prediction falling_prices 4 = Inr falling_forecast"
  "ensemble_loop falling_forecast falling_forecast falling_forecast [0..<nat 4] = Inr falling_forecast"
proof -
  have l10: "10 \<le> length falling_prices" by (simp add: falling_prices_def)
  have up: "[1..4::int] = [1, 2, 3, 4]" by code_simp
  have n: "falling_prices ! (length falling_prices - 1) = 60"
      "falling_prices ! (length falling_prices - 10) = 150"
    by (simp_all add: falling_prices_def)
  show "simple_trend_prediction falling_prices 4 = Inr falling_forecast"
    unfolding simple_trend_prediction_eq [OF l10] n up by (simp add: falling_forecast_def)
  have up': "[0..<nat 4] = [0, 1, 2, 3]" by code_simp
  show "ensemble_loop falling_forecast falling_forecast falling_forecast [0..<nat 4]
        = Inr falling_forecast"
    unfolding up' by (simp add: falling_forecast_def np_mean_def)
qed

subsection \<open>C3: the confidence bounds\<close>

text \<open>
  Claim C3: at every forecast step \<open>i\<close> (counted from 0) the bounds are
  \<open>ensemble[i] +/- 1.96 * uncertainty\<close>, where
  \<open>uncertainty = volatility * sqrt (i + 1) * ensemble[i]\<close>, optionally damped by the fixed
  factor 0.1, and \<open>volatility\<close> is the standard deviation of the daily returns
  \<^verbatim>\<open>(price[t] - price[t-1]) / price[t-1]\<close> over the full series.

  The backend uses the undamped uncertainty and the prediction-service the factor 0.1.
  The prices are positive, so that numpy's quotients are the real ones.
\<close>

theorem confidence_interval_formula:
  assumes "i < length preds" and "\<forall>p\<in>set prices. 0 < p"
  shows "calculate_confidence_intervals prices preds ! i =
           (preds ! i
              - 1.96 * (stddev_spec (daily_returns_spec prices) * sqrt (real (i + 1)) * preds ! i),
            preds ! i
              + 1.96 * (stddev_spec (daily_returns_spec prices) * sqrt (real (i + 1)) * preds ! i))
       \<and> calculate_confidence_intervals_ps prices preds ! i =
           (preds ! i
              - 1.96 * (stddev_spec (daily_returns_spec prices) * sqrt (real (i + 1)) * preds ! i * 0.1),
            preds ! i
              + 1.96 * (stddev_spec (daily_returns_spec prices) * sqrt (real (i + 1)) * preds ! i * 0.1))"
  using calculate_confidence_intervals_nth [OF assms(1)]
        calculate_confidence_intervals_ps_nth [OF assms(1)]
  by (intro conjI)

text \<open>
  An instance: the falling prices and their forecast at step 3, where \<open>sqrt 4 = 2\<close> and
  the point forecast is 24.
\<close>

theorem confidence_interval_formula_witness:
  "calculate_confidence_intervals falling_prices falling_forecast ! 3 =
     (24 - 1.96 * (stddev_spec (daily_returns_spec falling_prices) * 2 * 24),
      24 + 1.96 * (stddev_spec (daily_returns_spec falling_prices) * 2 * 24))
   \<and> calculate_confidence_intervals_ps falling_prices falling_forecast ! 3 =
     (24 - 1.96 * (stddev_spec (daily_returns_spec falling_prices) * 2 * 24 * 0.1),
      24 + 1.96 * (stddev_spec (daily_returns_spec falling_prices) * 2 * 24 * 0.1))"
proof -
  have i: "3 < length falling_forecast" by (simp add: falling_forecast_def)
  have p: "falling_forecast ! 3 = 24" by (simp add: falling_forecast_def)
  have s: "sqrt (real (3 + 1)) = 2" by simp
  show ?thesis
    using confidence_interval_formula [OF i falling_prices_positive]
    unfolding p s .
qed

subsection \<open>C10: the interval is symmetric and contains the point forecast\<close>

text \<open>
  Claim C10: at every forecast step, before the rounding to 2 decimals, the interval is
  symmetric about the point forecast (\<open>upper - predicted = predicted - lower\<close>), and so
  \<open>lower \<le> predicted \<le> upper\<close> whenever the ensemble prediction of the step is not negative.
  In both services.
\<close>

theorem confidence_interval_symmetric:
  assumes "i < length preds" and "\<forall>p\<in>set prices. 0 < p"
  shows "(snd (calculate_confidence_intervals prices preds ! i) - preds ! i
            = preds ! i - fst (calculate_confidence_intervals prices preds ! i)
          \<and> (0 \<le> preds ! i \<longrightarrow>
               fst (calculate_confidence_intervals prices preds ! i) \<le> preds ! i
             \<and> preds ! i \<le> snd (calculate_confidence_intervals prices preds ! i)))
       \<and> (snd (calculate_confidence_intervals_ps prices preds ! i) - preds ! i
            = preds ! i - fst (calculate_confidence_intervals_ps prices preds ! i)
          \<and> (0 \<le> preds ! i \<longrightarrow>
               fst (calculate_confidence_intervals_ps prices preds ! i) \<le> preds ! i
             \<and> preds ! i \<le> snd (calculate_confidence_intervals_ps prices preds ! i)))"
proof -
  have u: "0 \<le> stddev_spec (daily_returns_spec prices) * sqrt (real (i + 1)) * preds ! i"
    if "0 \<le> preds ! i"
    using that stddev_spec_nonneg [of "daily_returns_spec prices"] by simp
  show ?thesis
    unfolding calculate_confidence_intervals_nth [OF assms(1)]
      calculate_confidence_intervals_ps_nth [OF assms(1)]
    using u by auto
qed

text \<open>An instance: the falling prices and their forecast at step 3, of point forecast 24.\<close>

theorem confidence_interval_symmetric_witness:
  "snd (calculate_confidence_intervals falling_prices falling_forecast ! 3) - 24
     = 24 - fst (calculate_confidence_intervals falling_prices falling_forecast ! 3)
   \<and> fst (calculate_confidence_intervals falling_prices falling_forecast ! 3) \<le> 24
   \<and> 24 \<le> snd (calculate_confidence_intervals falling_prices falling_forecast ! 3)
   \<and> fst (calculate_confidence_intervals_ps falling_prices falling_forecast ! 3) \<le> 24
   \<and> 24 \<le> snd (calculate_confidence_intervals_ps falling_prices falling_forecast ! 3)"
proof -
  have i: "3 < length falling_forecast" by (simp add: falling_forecast_def)
  have p: "falling_forecast ! 3 = 24" by (simp add: falling_forecast_def)
  show ?thesis
    using confidence_interval_symmetric [OF i falling_prices_positive]
    unfolding p by simp
qed

subsection \<open>C4: how the interval widens\<close>

text \<open>
  Claim C4: the uncertainty, and with it the width \<open>upper - lower\<close>, strictly increases with
  the step \<open>i\<close>; at the least, for steps \<open>i < j\<close> whose ensemble predictions have the same
  sign, the width at \<open>j\<close> is at least the width at \<open>i\<close>.

  Counterexample to C4. The uncertainty is \<open>volatility * sqrt (i + 1) * ensemble[i]\<close>: it
  grows with the step relative to the point forecast, not absolutely. For the falling
  prices the forecast is 51, 42, 33, 24, all positive, and the interval at step 3
  (proportional to \<open>2 * 24\<close>) is narrower than at step 0 (proportional to \<open>1 * 51\<close>), in both
  services.
\<close>

theorem interval_width_shrinks:
  "0 < falling_forecast ! 0 \<and> 0 < falling_forecast ! 1
   \<and> 0 < falling_forecast ! 2 \<and> 0 < falling_forecast ! 3
   \<and> snd (calculate_confidence_intervals falling_prices falling_forecast ! 3)
       - fst (calculate_confidence_intervals falling_prices falling_forecast ! 3)
     < snd (calculate_confidence_intervals falling_prices falling_forecast ! 0)
       - fst (calculate_confidence_intervals falling_prices falling_forecast ! 0)
   \<and> snd (calculate_confidence_intervals_ps falling_prices falling_forecast ! 3)
       - fst (calculate_confidence_intervals_ps falling_prices falling_forecast ! 3)
     < snd (calculate_confidence_intervals_ps falling_prices falling_forecast ! 0)
       - fst (calculate_confidence_intervals_ps falling_prices falling_forecast ! 0)"
proof -
  have i: "3 < length falling_forecast" "0 < length falling_forecast"
    by (simp_all add: falling_forecast_def)
  have p: "falling_forecast ! 3 = 24" "falling_forecast ! 0 = 51"
      "falling_forecast ! 1 = 42" "falling_forecast ! 2 = 33"
    by (simp_all add: falling_forecast_def)
  have s: "sqrt (real (3 + 1)) = 2" "sqrt (real (0 + 1)) = 1" by simp_all
  show ?thesis
    unfolding interval_width [OF i(1)] interval_width [OF i(2)] p s
    using falling_prices_volatile by simp
qed

text \<open>
  Claim C4 as amended: for steps \<open>i < j\<close> with \<open>0 \<le> ensemble[i] \<le> ensemble[j]\<close> the width at
  \<open>j\<close> is at least the width at \<open>i\<close>, and it is strictly greater when the volatility of the
  series is not zero and \<open>ensemble[j]\<close> is positive. In both services, for positive prices.
\<close>

theorem interval_width_monotone:
  assumes "i < j" and "j < length preds" and "0 \<le> preds ! i" and "preds ! i \<le> preds ! j"
    and "\<forall>p\<in>set prices. 0 < p"
  shows "(snd (calculate_confidence_intervals prices preds ! i)
            - fst (calculate_confidence_intervals prices preds ! i)
          \<le> snd (calculate_confidence_intervals prices preds ! j)
            - fst (calculate_confidence_intervals prices preds ! j))
       \<and> (snd (calculate_confidence_intervals_ps prices preds ! i)
            - fst (calculate_confidence_intervals_ps prices preds ! i)
          \<le> snd (calculate_confidence_intervals_ps prices preds ! j)
            - fst (calculate_confidence_intervals_ps prices preds ! j))
       \<and> (0 < stddev_spec (daily_returns_spec prices) \<and> 0 < preds ! j \<longrightarrow>
            snd (calculate_confidence_intervals prices preds ! i)
              - fst (calculate_confidence_intervals prices preds ! i)
            < snd (calculate_confidence_intervals prices preds ! j)
              - fst (calculate_confidence_intervals prices preds ! j)
          \<and> snd (calculate_confidence_intervals_ps prices preds ! i)
              - fst (calculate_confidence_intervals_ps prices preds ! i)
            < snd (calculate_confidence_intervals_ps prices preds ! j)
              - fst (calculate_confidence_intervals_ps prices preds ! j))"
proof -
  let ?v = "stddev_spec (daily_returns_spec prices)"
  have i: "i < length preds" using assms(1,2) by simp
  have v: "0 \<le> ?v" by (rule stddev_spec_nonneg)
  have sq: "sqrt (real (i + 1)) < sqrt (real (j + 1))" using assms(1) by simp
  have sq0: "0 < sqrt (real (i + 1))" by simp
  have "sqrt (real (i + 1)) * preds ! i \<le> sqrt (real (i + 1)) * preds ! j"
    using assms(4) sq0 by simp
  moreover have "sqrt (real (i + 1)) * preds ! j \<le> sqrt (real (j + 1)) * preds ! j"
    using sq assms(3,4) by (intro mult_right_mono) simp_all
  ultimately have le: "sqrt (real (i + 1)) * preds ! i \<le> sqrt (real (j + 1)) * preds ! j"
    by linarith
  have lt: "sqrt (real (i + 1)) * preds ! i < sqrt (real (j + 1)) * preds ! j"
    if "0 < preds ! j"
  proof -
    have "sqrt (real (i + 1)) * preds ! j < sqrt (real (j + 1)) * preds ! j"
      using sq that by simp
    moreover have "sqrt (real (i + 1)) * preds ! i \<le> sqrt (real (i + 1)) * preds ! j"
      using assms(4) sq0 by simp
    ultimately show ?thesis by linarith
  qed
  define A where "A = ?v * (sqrt (real (i + 1)) * preds ! i)"
  define B where "B = ?v * (sqrt (real (j + 1)) * preds ! j)"
  have a: "A \<le> B"
    unfolding A_def B_def using le v by (rule mult_left_mono)
  have b: "A < B" if "0 < ?v" "0 < preds ! j"
    unfolding A_def B_def using lt [OF that(2)] that(1) by simp
  have w: "snd (calculate_confidence_intervals prices preds ! i)
             - fst (calculate_confidence_intervals prices preds ! i) = 2 * 1.96 * A"
      "snd (calculate_confidence_intervals prices preds ! j)
             - fst (calculate_confidence_intervals prices preds ! j) = 2 * 1.96 * B"
      "snd (calculate_confidence_intervals_ps prices preds ! i)
             - fst (calculate_confidence_intervals_ps prices preds ! i) = 2 * 1.96 * 0.1 * A"
      "snd (calculate_confidence_intervals_ps prices preds ! j)
             - fst (calculate_confidence_intervals_ps prices preds ! j) = 2 * 1.96 * 0.1 * B"
    unfolding A_def B_def interval_width [OF i] interval_width [OF assms(2)]
    by (simp_all only: mult.assoc)
  show ?thesis
    unfolding w using a b by auto
qed

lemma rising_prices_volatile: "0 < stddev_spec (daily_returns_spec (map snd rising_history))"
proof -
  have len: "length (daily_returns_spec (map snd rising_history)) = 49"
    by (simp add: daily_returns_spec_def rising_history_def)
  have r0: "daily_returns_spec (map snd rising_history) ! 0 = 1 / 200"
    by (simp add: daily_returns_spec_def rising_history_def)
  have r1: "daily_returns_spec (map snd rising_history) ! 1 = 1 / 201"
    by (simp add: daily_returns_spec_def rising_history_def)
  have "daily_returns_spec (map snd rising_history) ! 0
          \<in> set (daily_returns_spec (map snd rising_history))"
    by (rule nth_mem) (simp add: len)
  moreover have "daily_returns_spec (map snd rising_history) ! 1
          \<in> set (daily_returns_spec (map snd rising_history))"
    by (rule nth_mem) (simp add: len)
  moreover have "daily_returns_spec (map snd rising_history) ! 0
          \<noteq> daily_returns_spec (map snd rising_history) ! 1"
    unfolding r0 r1 by simp
  ultimately show ?thesis by (rule stddev_spec_pos)
qed

text \<open>
  An instance: the rising prices, whose forecast 124.95, 125.4, 125.85 increases; the
  interval at step 2 is strictly wider than at step 0.
\<close>

theorem interval_width_monotone_witness:
  "snd (calculate_confidence_intervals (map snd rising_history) [2499 / 20, 627 / 5, 2517 / 20] ! 0)
     - fst (calculate_confidence_intervals (map snd rising_history) [2499 / 20, 627 / 5, 2517 / 20] ! 0)
   < snd (calculate_confidence_intervals (map snd rising_history) [2499 / 20, 627 / 5, 2517 / 20] ! 2)
     - fst (calculate_confidence_intervals (map snd rising_history) [2499 / 20, 627 / 5, 2517 / 20] ! 2)
   \<and> snd (calculate_confidence_intervals_ps (map snd rising_history) [2499 / 20, 627 / 5, 2517 / 20] ! 0)
     - fst (calculate_confidence_intervals_ps (map snd rising_history) [2499 / 20, 627 / 5, 2517 / 20] ! 0)
   < snd (calculate_confidence_intervals_ps (map snd rising_history) [2499 / 20, 627 / 5, 2517 / 20] ! 2)
     - fst (calculate_confidence_intervals_ps (map snd rising_history) [2499 / 20, 627 / 5, 2517 / 20] ! 2)"
proof -
  have h: "(0::nat) < 2" "2 < length [2499 / 20, 627 / 5, 2517 / 20 :: real]"
      "0 \<le> [2499 / 20, 627 / 5, 2517 / 20 :: real] ! 0"
      "[2499 / 20, 627 / 5, 2517 / 20 :: real] ! 0 \<le> [2499 / 20, 627 / 5, 2517 / 20] ! 2"
    by simp_all
  have pos: "0 < [2499 / 20, 627 / 5, 2517 / 20 :: real] ! 2" by simp
  show ?thesis
    using interval_width_monotone [OF h rising_history_facts(4)] rising_prices_volatile pos
    by blast
qed

subsection \<open>The records of a run that succeeds\<close>

lemma py_round2_error: "\<bar>py_round2 x - x\<bar> \<le> 1 / 200"
proof -
  define y where "y = x * 100"
  define f where "f = \<lfloor>y\<rfloor>"
  define d where "d = y - of_int f"
  have d: "0 \<le> d" "d < 1"
    unfolding d_def f_def by linarith+
  have y: "y = of_int f + d" by (simp add: d_def)
  have r: "py_round2 x = of_int (if d < 1/2 then f else if 1/2 < d then f + 1
                 else if even f then f else f + 1) / 100"
    unfolding py_round2_def Let_def d_def f_def y_def by (rule refl)
  have x: "x = y / 100" by (simp add: y_def)
  have "\<bar>of_int (if d < 1/2 then f else if 1/2 < d then f + 1
                 else if even f then f else f + 1) - y\<bar> \<le> 1 / 2"
    using d y by auto
  then have "\<bar>of_int (if d < 1/2 then f else if 1/2 < d then f + 1
                 else if even f then f else f + 1) / 100 - y / 100\<bar> \<le> 1 / 200"
    by (simp add: diff_divide_distrib [symmetric] del: of_int_add of_int_diff)
  then have "\<bar>py_round2 x - y / 100\<bar> \<le> 1 / 200"
    unfolding r .
  then show ?thesis
    by (simp add: y_def)
qed

lemma prepare_response_rows:
  assumes "length ar = nat days" "length lr = nat days" "length arima = nat days"
    and "30 \<le> length prices" "last prices \<noteq> 0"
  defines "ens \<equiv> map (\<lambda>i. (ar ! i + lr ! i + arima ! i) / 3) [0..<nat days]"
  shows "\<exists>r. prepare_response e sy days hist prices ar lr arima = Inr r
           \<and> length (predictions r) = nat days
           \<and> (\<forall>i<nat days. predictions r ! i =
                 prediction_row (last prices) ens (calculate_confidence_intervals prices ens) i
                   (future_dates (fst (last hist)) days ! i))
           \<and> accuracy_metrics (model_info r) = projr (calculate_accuracy_metrics prices)"
proof -
  have a: "nat days \<le> length ar" "nat days \<le> length lr" "nat days \<le> length arima"
    using assms(1-3) by simp_all
  show ?thesis
    unfolding ens_def
    by (subst prepare_response_eq [OF a assms(4,5)])
       (simp add: length_future_dates nth_enumerate_eq)
qed

lemma prepare_response_ps_rows:
  assumes "length ar = nat days" "length lr = nat days" "length arima = nat days"
    and "30 \<le> length prices" "last prices \<noteq> 0"
  defines "ens \<equiv> map (\<lambda>i. (ar ! i + lr ! i + arima ! i) / 3) [0..<nat days]"
  shows "\<exists>r. prepare_response_ps e sy days hist prices ar lr arima = Inr r
           \<and> length (predictions r) = nat days
           \<and> (\<forall>i<nat days. predictions r ! i =
                 prediction_row (last prices) ens (calculate_confidence_intervals_ps prices ens) i
                   (generate_business_dates (fst (last hist)) days ! i))
           \<and> accuracy_metrics (model_info r) = projr (calculate_accuracy_metrics prices)"
proof -
  have a: "nat days \<le> length ar" "nat days \<le> length lr" "nat days \<le> length arima"
    using assms(1-3) by simp_all
  have len: "length (generate_business_dates (fst (last hist)) days) = nat days"
    using generate_business_dates_ok by blast
  show ?thesis
    unfolding ens_def
    by (subst prepare_response_ps_eq [OF a assms(4,5)])
       (simp add: len nth_enumerate_eq)
qed

lemma prepare_response_zero_price:
  assumes "length ar = nat days" "length lr = nat days" "length arima = nat days"
    and "0 < days" "last prices = 0"
  shows "prepare_response e sy days hist prices ar lr arima
           = Inl (ZeroDivisionError ''float division by zero'')"
    and "prepare_response_ps e sy days hist prices ar lr arima
           = Inl (ZeroDivisionError ''float division by zero'')"
proof -
  define ens where "ens = map (\<lambda>i. (ar ! i + lr ! i + arima ! i) / 3) [0..<nat days]"
  have e: "ensemble_loop ar lr arima [0..<nat days] = Inr ens"
    unfolding ens_def using assms(1-3) by (intro ensemble_loop_eq) auto
  have l: "0 < length ens" using assms(4) by (simp add: ens_def)
  have f: "future_dates (fst (last hist)) days \<noteq> []"
    using length_future_dates [of "fst (last hist)" days] assms(4) by auto
  have len: "length (generate_business_dates (fst (last hist)) days) = nat days"
    using generate_business_dates_ok by blast
  then have g: "generate_business_dates (fst (last hist)) days \<noteq> []"
    using assms(4) by auto
  have sl: "slice_first days (generate_business_dates (fst (last hist)) days)
            = generate_business_dates (fst (last hist)) days"
    using len by (rule slice_first_full)
  show "prepare_response e sy days hist prices ar lr arima
           = Inl (ZeroDivisionError ''float division by zero'')"
    using predictions_data_loop_zero [OF l f]
    by (simp add: prepare_response_def e Let_def assms(5))
  show "prepare_response_ps e sy days hist prices ar lr arima
           = Inl (ZeroDivisionError ''float division by zero'')"
    using predictions_data_loop_zero [OF l g]
    by (simp add: prepare_response_ps_def e Let_def assms(5) sl)
qed

lemma predict_prices_try_run:
  assumes "history e sy = Inr hist" "50 \<le> length hist"
    and "\<forall>f. AutoReg_forecast e (map snd hist) (min 20 (int (length (map snd hist)) div 5)) days
              = Inr f \<longrightarrow> length f = nat days"
    and "\<forall>f. ARIMA_forecast e (map snd hist) days = Inr f \<longrightarrow> length f = nat days"
  shows "\<exists>ar lr arima.
           predict_with_autoregression e (map snd hist) days = Inr ar \<and> length ar = nat days
         \<and> predict_with_linear_regression e (map snd hist) days = Inr lr \<and> length lr = nat days
         \<and> predict_with_arima e (map snd hist) days = Inr arima \<and> length arima = nat days
         \<and> predict_prices_try e sy days =
             ([AutoRegression, LinearRegression, ARIMA],
              prepare_response e sy days hist (map snd hist) ar lr arima)
         \<and> predict_prices_try_ps e sy days =
             ([AutoRegression, LinearRegression, ARIMA],
              prepare_response_ps e sy days hist (map snd hist) ar lr arima)"
proof -
  have ne: "map snd hist \<noteq> []" using assms(2) by auto
  obtain ar where ar: "predict_with_autoregression e (map snd hist) days = Inr ar"
      "length ar = nat days"
    using predict_with_autoregression_total [OF ne assms(3)] by blast
  obtain lr where lr: "predict_with_linear_regression e (map snd hist) days = Inr lr"
      "length lr = nat days"
    using predict_with_linear_regression_total [OF ne] by blast
  obtain arima where arima: "predict_with_arima e (map snd hist) days = Inr arima"
      "length arima = nat days"
    using predict_with_arima_total [OF ne assms(4)] by blast
  show ?thesis
    using predict_prices_try_eq [OF assms(1,2) ar(1) lr(1) arima(1)]
      predict_prices_try_ps_eq [OF assms(1,2) ar(1) lr(1) arima(1)] ar lr arima
    by blast
qed

lemma predict_prices_rows:
  assumes "history e sy = Inr hist" and "50 \<le> length hist"
    and "last (map snd hist) \<noteq> 0"
    and "\<forall>f. AutoReg_forecast e (map snd hist) (min 20 (int (length (map snd hist)) div 5)) days
              = Inr f \<longrightarrow> length f = nat days"
    and "\<forall>f. ARIMA_forecast e (map snd hist) days = Inr f \<longrightarrow> length f = nat days"
  shows "\<exists>ar lr arima r r'.
           predict_with_autoregression e (map snd hist) days = Inr ar \<and> length ar = nat days
         \<and> predict_with_linear_regression e (map snd hist) days = Inr lr \<and> length lr = nat days
         \<and> predict_with_arima e (map snd hist) days = Inr arima \<and> length arima = nat days
         \<and> snd (predict_prices e sy days) = Inr r
         \<and> snd (predict_prices_ps e sy days) = Inr r'
         \<and> (\<forall>i<nat days.
               predictions r ! i =
                 prediction_row (last (map snd hist))
                   (map (\<lambda>i. (ar ! i + lr ! i + arima ! i) / 3) [0..<nat days])
                   (calculate_confidence_intervals (map snd hist)
                      (map (\<lambda>i. (ar ! i + lr ! i + arima ! i) / 3) [0..<nat days]))
                   i (future_dates (fst (last hist)) days ! i)
             \<and> predictions r' ! i =
                 prediction_row (last (map snd hist))
                   (map (\<lambda>i. (ar ! i + lr ! i + arima ! i) / 3) [0..<nat days])
                   (calculate_confidence_intervals_ps (map snd hist)
                      (map (\<lambda>i. (ar ! i + lr ! i + arima ! i) / 3) [0..<nat days]))
                   i (generate_business_dates (fst (last hist)) days ! i))"
proof -
  obtain ar lr arima where run:
      "predict_with_autoregression e (map snd hist) days = Inr ar" "length ar = nat days"
      "predict_with_linear_regression e (map snd hist) days = Inr lr" "length lr = nat days"
      "predict_with_arima e (map snd hist) days = Inr arima" "length arima = nat days"
      "predict_prices e sy days =
         ([AutoRegression, LinearRegression, ARIMA],
          prepare_response e sy days hist (map snd hist) ar lr arima)"
      "predict_prices_ps e sy days =
         ([AutoRegression, LinearRegression, ARIMA],
          prepare_response_ps e sy days hist (map snd hist) ar lr arima)"
    using predict_prices_run [OF assms] by blast
  have l30: "30 \<le> length (map snd hist)" using assms(2) by simp
  obtain r where r: "prepare_response e sy days hist (map snd hist) ar lr arima = Inr r"
      "\<forall>i<nat days. predictions r ! i =
                 prediction_row (last (map snd hist))
                   (map (\<lambda>i. (ar ! i + lr ! i + arima ! i) / 3) [0..<nat days])
                   (calculate_confidence_intervals (map snd hist)
                      (map (\<lambda>i. (ar ! i + lr ! i + arima ! i) / 3) [0..<nat days]))
                   i (future_dates (fst (last hist)) days ! i)"
    using prepare_response_rows [OF run(2,4,6) l30 assms(3)] by blast
  obtain r' where r': "prepare_response_ps e sy days hist (map snd hist) ar lr arima = Inr r'"
      "\<forall>i<nat days. predictions r' ! i =
                 prediction_row (last (map snd hist))
                   (map (\<lambda>i. (ar ! i + lr ! i + arima ! i) / 3) [0..<nat days])
                   (calculate_confidence_intervals_ps (map snd hist)
                      (map (\<lambda>i. (ar ! i + lr ! i + arima ! i) / 3) [0..<nat days]))
                   i (generate_business_dates (fst (last hist)) days ! i)"
    using prepare_response_ps_rows [OF run(2,4,6) l30 assms(3)] by blast
  have 1: "snd (predict_prices e sy days) = Inr r" using run(7) r(1) by simp
  have 2: "snd (predict_prices_ps e sy days) = Inr r'" using run(8) r'(1) by simp
  show ?thesis
    using run(1-6) 1 2 r(2) r'(2) by blast
qed

subsection \<open>C7: the ensemble is the plain mean\<close>

text \<open>
  Claim C7: at every forecast step \<open>i\<close> the ensemble point forecast is the arithmetic mean,
  with equal weights, of the three predictors' values at step \<open>i\<close>.

  Stated on a whole run: \<open>ar\<close>, \<open>lr\<close> and \<open>arima\<close> are what the three predictors return,
  \<open>ens\<close> is the list the ensemble loop builds from them, and the \<open>predicted_price\<close> of the
  record of step \<open>i\<close> is that mean rounded to 2 decimals, in both services (the
  prediction-service labels its ensemble a weighted average and computes the same mean).
\<close>

theorem ensemble_is_arithmetic_mean:
  assumes "history e sy = Inr hist" and "50 \<le> length hist"
    and "\<forall>p\<in>set (map snd hist). 0 < p"
    and "\<forall>f. AutoReg_forecast e (map snd hist) (min 20 (int (length (map snd hist)) div 5)) days
              = Inr f \<longrightarrow> length f = nat days"
    and "\<forall>f. ARIMA_forecast e (map snd hist) days = Inr f \<longrightarrow> length f = nat days"
    and "i < nat days"
  shows "\<exists>ar lr arima ens r r'.
           predict_with_autoregression e (map snd hist) days = Inr ar
         \<and> predict_with_linear_regression e (map snd hist) days = Inr lr
         \<and> predict_with_arima e (map snd hist) days = Inr arima
         \<and> ensemble_loop ar lr arima [0..<nat days] = Inr ens
         \<and> ens ! i = (ar ! i + lr ! i + arima ! i) / 3
         \<and> snd (predict_prices e sy days) = Inr r
         \<and> predicted_price (predictions r ! i) = py_round2 ((ar ! i + lr ! i + arima ! i) / 3)
         \<and> snd (predict_prices_ps e sy days) = Inr r'
         \<and> predicted_price (predictions r' ! i) = py_round2 ((ar ! i + lr ! i + arima ! i) / 3)"
proof -
  have ne: "map snd hist \<noteq> []" using assms(2) by auto
  have nz: "last (map snd hist) \<noteq> 0"
    using positive_last_nonzero [OF assms(3) ne] .
  obtain ar lr arima r r' where run:
      "predict_with_autoregression e (map snd hist) days = Inr ar" "length ar = nat days"
      "predict_with_linear_regression e (map snd hist) days = Inr lr" "length lr = nat days"
      "predict_with_arima e (map snd hist) days = Inr arima" "length arima = nat days"
      "snd (predict_prices e sy days) = Inr r"
      "snd (predict_prices_ps e sy days) = Inr r'"
      "\<forall>i<nat days.
               predictions r ! i =
                 prediction_row (last (map snd hist))
                   (map (\<lambda>i. (ar ! i + lr ! i + arima ! i) / 3) [0..<nat days])
                   (calculate_confidence_intervals (map snd hist)
                      (map (\<lambda>i. (ar ! i + lr ! i + arima ! i) / 3) [0..<nat days]))
                   i (future_dates (fst (last hist)) days ! i)
             \<and> predictions r' ! i =
                 prediction_row (last (map snd hist))
                   (map (\<lambda>i. (ar ! i + lr ! i + arima ! i) / 3) [0..<nat days])
                   (calculate_confidence_intervals_ps (map snd hist)
                      (map (\<lambda>i. (ar ! i + lr ! i + arima ! i) / 3) [0..<nat days]))
                   i (generate_business_dates (fst (last hist)) days ! i)"
    using predict_prices_rows [OF assms(1,2) nz assms(4,5)] by blast
  define ens where "ens = map (\<lambda>i. (ar ! i + lr ! i + arima ! i) / 3) [0..<nat days]"
  have e: "ensemble_loop ar lr arima [0..<nat days] = Inr ens"
    unfolding ens_def using run(2,4,6) by (intro ensemble_loop_eq) auto
  have n: "ens ! i = (ar ! i + lr ! i + arima ! i) / 3"
    using assms(6) by (simp add: ens_def)
  have p: "predicted_price (predictions r ! i) = py_round2 ((ar ! i + lr ! i + arima ! i) / 3)"
    using run(9) assms(6) by (simp add: prediction_row_def Let_def)
  have p': "predicted_price (predictions r' ! i) = py_round2 ((ar ! i + lr ! i + arima ! i) / 3)"
    using run(9) assms(6) by (simp add: prediction_row_def Let_def)
  show ?thesis
    using run(1,3,5,7,8) e n p p' by blast
qed

subsection \<open>C8: the changes from the current price\<close>

text \<open>
  Claim C8: in the record of every step, \<open>change_from_current\<close> is
  \<open>predicted_price - current_price\<close> and \<open>change_percent\<close> is that difference divided by
  \<open>current_price\<close> and multiplied by 100, each rounded to 2 decimals, where \<open>current_price\<close>
  is the last value of the series; so \<open>predicted_price - change_from_current\<close> gives the
  current price back within the rounding tolerance (half a cent).

  \<open>predicted_price\<close> is the record's field, the rounded point forecast. Both quantities
  are computed from the unrounded difference and rounded separately.
\<close>

theorem change_from_current_price:
  assumes "history e sy = Inr hist" and "50 \<le> length hist"
    and "\<forall>p\<in>set (map snd hist). 0 < p"
    and "\<forall>f. AutoReg_forecast e (map snd hist) (min 20 (int (length (map snd hist)) div 5)) days
              = Inr f \<longrightarrow> length f = nat days"
    and "\<forall>f. ARIMA_forecast e (map snd hist) days = Inr f \<longrightarrow> length f = nat days"
    and "i < nat days"
  shows "\<exists>r r'.
           snd (predict_prices e sy days) = Inr r
         \<and> change_from_current (predictions r ! i)
             = py_round2 (predicted_price (predictions r ! i) - last (map snd hist))
         \<and> change_percent (predictions r ! i)
             = py_round2 ((predicted_price (predictions r ! i) - last (map snd hist))
                          / last (map snd hist) * 100)
         \<and> \<bar>predicted_price (predictions r ! i) - change_from_current (predictions r ! i)
              - last (map snd hist)\<bar> \<le> 1 / 200
         \<and> snd (predict_prices_ps e sy days) = Inr r'
         \<and> change_from_current (predictions r' ! i)
             = py_round2 (predicted_price (predictions r' ! i) - last (map snd hist))
         \<and> change_percent (predictions r' ! i)
             = py_round2 ((predicted_price (predictions r' ! i) - last (map snd hist))
                          / last (map snd hist) * 100)
         \<and> \<bar>predicted_price (predictions r' ! i) - change_from_current (predictions r' ! i)
              - last (map snd hist)\<bar> \<le> 1 / 200"
proof -
  have ne: "map snd hist \<noteq> []" using assms(2) by auto
  have nz: "last (map snd hist) \<noteq> 0"
    using positive_last_nonzero [OF assms(3) ne] .
  obtain ar lr arima r r' where run:
      "snd (predict_prices e sy days) = Inr r"
      "snd (predict_prices_ps e sy days) = Inr r'"
      "\<forall>i<nat days.
               predictions r ! i =
                 prediction_row (last (map snd hist))
                   (map (\<lambda>i. (ar ! i + lr ! i + arima ! i) / 3) [0..<nat days])
                   (calculate_confidence_intervals (map snd hist)
                      (map (\<lambda>i. (ar ! i + lr ! i + arima ! i) / 3) [0..<nat days]))
                   i (future_dates (fst (last hist)) days ! i)
             \<and> predictions r' ! i =
                 prediction_row (last (map snd hist))
                   (map (\<lambda>i. (ar ! i + lr ! i + arima ! i) / 3) [0..<nat days])
                   (calculate_confidence_intervals_ps (map snd hist)
                      (map (\<lambda>i. (ar ! i + lr ! i + arima ! i) / 3) [0..<nat days]))
                   i (generate_business_dates (fst (last hist)) days ! i)"
    using predict_prices_rows [OF assms(1,2) nz assms(4,5)] by blast
  have row: "change_from_current (prediction_row c ens ci i d)
               = py_round2 (predicted_price (prediction_row c ens ci i d) - c)
           \<and> change_percent (prediction_row c ens ci i d)
               = py_round2 ((predicted_price (prediction_row c ens ci i d) - c) / c * 100)
           \<and> \<bar>predicted_price (prediction_row c ens ci i d)
                - change_from_current (prediction_row c ens ci i d) - c\<bar> \<le> 1 / 200"
    for c ens ci d
  proof -
    have "\<bar>py_round2 (py_round2 (ens ! i) - c) - (py_round2 (ens ! i) - c)\<bar> \<le> 1 / 200"
      by (rule py_round2_error)
    then show ?thesis
      by (simp add: prediction_row_def Let_def abs_minus_commute algebra_simps)
  qed
  have a: "predictions r ! i = prediction_row (last (map snd hist))
                   (map (\<lambda>i. (ar ! i + lr ! i + arima ! i) / 3) [0..<nat days])
                   (calculate_confidence_intervals (map snd hist)
                      (map (\<lambda>i. (ar ! i + lr ! i + arima ! i) / 3) [0..<nat days]))
                   i (future_dates (fst (last hist)) days ! i)"
    using run(3) assms(6) by blast
  have b: "predictions r' ! i = prediction_row (last (map snd hist))
                   (map (\<lambda>i. (ar ! i + lr ! i + arima ! i) / 3) [0..<nat days])
                   (calculate_confidence_intervals_ps (map snd hist)
                      (map (\<lambda>i. (ar ! i + lr ! i + arima ! i) / 3) [0..<nat days]))
                   i (generate_business_dates (fst (last hist)) days ! i)"
    using run(3) assms(6) by blast
  note ra = row [of "last (map snd hist)"
      "map (\<lambda>i. (ar ! i + lr ! i + arima ! i) / 3) [0..<nat days]"
      "calculate_confidence_intervals (map snd hist)
         (map (\<lambda>i. (ar ! i + lr ! i + arima ! i) / 3) [0..<nat days])"
      "future_dates (fst (last hist)) days ! i", folded a]
  note rb = row [of "last (map snd hist)"
      "map (\<lambda>i. (ar ! i + lr ! i + arima ! i) / 3) [0..<nat days]"
      "calculate_confidence_intervals_ps (map snd hist)
         (map (\<lambda>i. (ar ! i + lr ! i + arima ! i) / 3) [0..<nat days])"
      "generate_business_dates (fst (last hist)) days ! i", folded b]
  show ?thesis
    using run(1,2) ra rb by blast
qed

lemma rising_history_fallback:
  "simple_trend_prediction (map snd rising_history) 3 = Inr [2499 / 20, 627 / 5, 2517 / 20]"
proof -
  have l10: "10 \<le> length (map snd rising_history)"
    by (simp add: rising_history_facts(1))
  have up: "[1..3::int] = [1, 2, 3]" by code_simp
  have n: "map snd rising_history ! (length (map snd rising_history) - 1) = 249 / 2"
      "map snd rising_history ! (length (map snd rising_history) - 10) = 120"
    by (simp_all add: rising_history_def)
  show ?thesis
    unfolding simple_trend_prediction_eq [OF l10] n up by simp
qed

text \<open>
  An instance of C7: the rising prices with every fit raising; each predictor returns the
  fallback, whose step 1 is 125.4, and so does the ensemble.
\<close>

theorem ensemble_is_arithmetic_mean_witness:
  "map_sum id (\<lambda>r. predicted_price (predictions r ! 1))
     (snd (predict_prices (failing_fits rising_history) ''AAPL'' 3))
   = Inr (py_round2 ((627 / 5 + 627 / 5 + 627 / 5) / 3))
   \<and> map_sum id (\<lambda>r. predicted_price (predictions r ! 1))
     (snd (predict_prices_ps (failing_fits rising_history) ''AAPL'' 3))
   = Inr (py_round2 ((627 / 5 + 627 / 5 + 627 / 5) / 3))"
proof -
  have len: "50 \<le> length rising_history"
    by (simp add: rising_history_facts(1))
  have i: "1 < nat 3" by simp
  obtain ar lr arima r r' where w:
      "predict_with_autoregression (failing_fits rising_history) (map snd rising_history) 3 = Inr ar"
      "predict_with_linear_regression (failing_fits rising_history) (map snd rising_history) 3 = Inr lr"
      "predict_with_arima (failing_fits rising_history) (map snd rising_history) 3 = Inr arima"
      "snd (predict_prices (failing_fits rising_history) ''AAPL'' 3) = Inr r"
      "predicted_price (predictions r ! 1) = py_round2 ((ar ! 1 + lr ! 1 + arima ! 1) / 3)"
      "snd (predict_prices_ps (failing_fits rising_history) ''AAPL'' 3) = Inr r'"
      "predicted_price (predictions r' ! 1) = py_round2 ((ar ! 1 + lr ! 1 + arima ! 1) / 3)"
    using ensemble_is_arithmetic_mean [where e = "failing_fits rising_history"
        and sy = "''AAPL''" and hist = rising_history and days = 3 and i = 1,
        OF failing_fits_history len rising_history_facts(4) failing_fits_contract i]
    by blast
  have "ar = [2499 / 20, 627 / 5, 2517 / 20]" "lr = [2499 / 20, 627 / 5, 2517 / 20]"
      "arima = [2499 / 20, 627 / 5, 2517 / 20]"
    using w(1-3) by (simp_all add: failing_fits_predictors rising_history_fallback)
  then have v: "ar ! 1 = 627 / 5" "lr ! 1 = 627 / 5" "arima ! 1 = 627 / 5" by simp_all
  have p: "predicted_price (predictions r ! 1) = py_round2 ((627 / 5 + 627 / 5 + 627 / 5) / 3)"
    using w(5) unfolding v .
  have p': "predicted_price (predictions r' ! 1) = py_round2 ((627 / 5 + 627 / 5 + 627 / 5) / 3)"
    using w(7) unfolding v .
  show ?thesis
    unfolding w(4) w(6) using p p' by simp
qed

text \<open>An instance of C8: the same run, whose current price is 124.5, at step 1.\<close>

theorem change_from_current_price_witness:
  "\<exists>r r'.
     snd (predict_prices (failing_fits rising_history) ''AAPL'' 3) = Inr r
   \<and> change_from_current (predictions r ! 1)
       = py_round2 (predicted_price (predictions r ! 1) - 249 / 2)
   \<and> change_percent (predictions r ! 1)
       = py_round2 ((predicted_price (predictions r ! 1) - 249 / 2) / (249 / 2) * 100)
   \<and> \<bar>predicted_price (predictions r ! 1) - change_from_current (predictions r ! 1)
        - 249 / 2\<bar> \<le> 1 / 200
   \<and> snd (predict_prices_ps (failing_fits rising_history) ''AAPL'' 3) = Inr r'
   \<and> change_from_current (predictions r' ! 1)
       = py_round2 (predicted_price (predictions r' ! 1) - 249 / 2)
   \<and> change_percent (predictions r' ! 1)
       = py_round2 ((predicted_price (predictions r' ! 1) - 249 / 2) / (249 / 2) * 100)
   \<and> \<bar>predicted_price (predictions r' ! 1) - change_from_current (predictions r' ! 1)
        - 249 / 2\<bar> \<le> 1 / 200"
proof -
  have len: "50 \<le> length rising_history"
    by (simp add: rising_history_facts(1))
  have i: "1 < nat 3" by simp
  show ?thesis
    using change_from_current_price [where e = "failing_fits rising_history"
        and sy = "''AAPL''" and hist = rising_history and days = 3 and i = 1,
        OF failing_fits_history len rising_history_facts(4) failing_fits_contract i]
    unfolding rising_history_facts(3) .
qed

subsection \<open>C9: the accuracy metrics\<close>

lemma spike_prices_facts:
  "length spike_prices = 50"
  "last spike_prices = 129"
  "spike_prices ! (length spike_prices - 30) = 100"
  "spike_prices ! (length spike_prices - 1) = 129"
  "spike_prices ! (length spike_prices - 1 - 30) = 200"
  by (simp_all add: spike_prices_def last_map)

text \<open>
  Claim C9: for a series of at least 50 observations, \<open>recent_volatility_percent\<close> is the
  standard deviation of the last 30 prices divided by their mean, times 100, rounded to 2
  decimals; \<open>trend_direction\<close> is \<open>upward\<close> if the last price exceeds the price 30
  observations earlier and \<open>downward\<close> otherwise; \<open>data_points_used\<close> is the length of the
  series.

  Counterexample to C9. The code compares the last price with \<^verbatim>\<open>prices[-30]\<close>, the first
  of the trailing 30 observations, which lies 29 observations before the last one; the
  price 30 observations before the last is \<^verbatim>\<open>prices[-31]\<close>. On fifty prices whose last
  is 129.0, with \<^verbatim>\<open>prices[-30] = 100.0\<close> and \<^verbatim>\<open>prices[-31] = 200.0\<close>, the direction is
  \<open>upward\<close> although the last price does not exceed the price 30 observations earlier.
\<close>

theorem trend_direction_not_30_earlier:
  "map_sum id trend_direction (calculate_accuracy_metrics spike_prices) = Inr ''upward''
   \<and> length spike_prices = 50
   \<and> spike_prices ! (length spike_prices - 1) = 129
   \<and> spike_prices ! (length spike_prices - 1 - 30) = 200
   \<and> \<not> spike_prices ! (length spike_prices - 1) > spike_prices ! (length spike_prices - 1 - 30)"
proof -
  have l30: "30 \<le> length spike_prices"
    by (simp add: spike_prices_facts(1))
  have "map_sum id trend_direction (calculate_accuracy_metrics spike_prices) = Inr ''upward''"
    unfolding calculate_accuracy_metrics_eq [OF l30] spike_prices_facts(2,3) by simp
  then show ?thesis
    unfolding spike_prices_facts(4,5) by (simp add: spike_prices_facts(1))
qed

text \<open>
  Claim C9 as amended: for a series of at least 50 observations,
  \<open>recent_volatility_percent\<close> is the standard deviation of the last 30 prices divided by
  their mean, times 100, rounded to 2 decimals; \<open>trend_direction\<close> is \<open>upward\<close> if the last
  price exceeds \<^verbatim>\<open>prices[-30]\<close>, the first of the trailing 30 observations (29
  observations before the last), and \<open>downward\<close> otherwise; \<open>data_points_used\<close> is the
  length of the series.
\<close>

theorem accuracy_metrics_formula:
  assumes "50 \<le> length prices" and "\<forall>p\<in>set prices. 0 < p"
  shows "\<exists>m. calculate_accuracy_metrics prices = Inr m
           \<and> recent_volatility_percent m
               = py_round2 (stddev_spec (map (\<lambda>k. prices ! (length prices - 30 + k)) [0..<30])
                            / mean_spec (map (\<lambda>k. prices ! (length prices - 30 + k)) [0..<30])
                            * 100)
           \<and> trend_direction m
               = (if prices ! (length prices - 1) > prices ! (length prices - 30)
                  then ''upward'' else ''downward'')
           \<and> data_points_used m = length prices"
proof -
  have l30: "30 \<le> length prices" using assms(1) by simp
  have ne: "prices \<noteq> []" using assms(1) by auto
  have sl: "slice_last 30 prices = map (\<lambda>k. prices ! (length prices - 30 + k)) [0..<30]"
    using l30 by (rule slice_last_nth)
  have la: "last prices = prices ! (length prices - 1)"
    using ne by (rule last_conv_nth)
  show ?thesis
    unfolding calculate_accuracy_metrics_eq [OF l30] sl la np_std_spec np_mean_spec
    by simp
qed

text \<open>
  An instance: the rising prices, 50 of them; the last one, 124.5, exceeds
  \<^verbatim>\<open>prices[-30]\<close>, 110.0, and the direction is upward.
\<close>

theorem accuracy_metrics_formula_witness:
  "map_sum id trend_direction (calculate_accuracy_metrics (map snd rising_history)) = Inr ''upward''
   \<and> map_sum id data_points_used (calculate_accuracy_metrics (map snd rising_history)) = Inr 50
   \<and> map_sum id recent_volatility_percent (calculate_accuracy_metrics (map snd rising_history))
       = Inr (py_round2
                (stddev_spec (map (\<lambda>k. map snd rising_history ! (20 + k)) [0..<30])
                 / mean_spec (map (\<lambda>k. map snd rising_history ! (20 + k)) [0..<30]) * 100))"
proof -
  have len: "50 \<le> length (map snd rising_history)"
    by (simp add: rising_history_facts(1))
  have l: "length (map snd rising_history) = 50"
    by (simp add: rising_history_facts(1))
  have n: "map snd rising_history ! (50 - 1) = 249 / 2" "map snd rising_history ! (50 - 30) = 110"
    by (simp_all add: rising_history_def)
  obtain m where m: "calculate_accuracy_metrics (map snd rising_history) = Inr m"
      "recent_volatility_percent m
         = py_round2 (stddev_spec (map (\<lambda>k. map snd rising_history ! (50 - 30 + k)) [0..<30])
                      / mean_spec (map (\<lambda>k. map snd rising_history ! (50 - 30 + k)) [0..<30])
                      * 100)"
      "trend_direction m
         = (if map snd rising_history ! (50 - 1) > map snd rising_history ! (50 - 30)
            then ''upward'' else ''downward'')"
      "data_points_used m = 50"
    using accuracy_metrics_formula [OF len rising_history_facts(4)] unfolding l by blast
  have t: "trend_direction m = ''upward''"
    using m(3) unfolding n by simp
  have v: "recent_volatility_percent m
         = py_round2 (stddev_spec (map (\<lambda>k. map snd rising_history ! (20 + k)) [0..<30])
                      / mean_spec (map (\<lambda>k. map snd rising_history ! (20 + k)) [0..<30])
                      * 100)"
    using m(2) by simp
  show ?thesis
    unfolding m(1) using t v m(4) by simp
qed

subsection \<open>C5: fewer than 50 observations\<close>

lemma short_history_raises:
  assumes "history e sy = Inr hist" "length hist < 50"
  shows "predict_prices_try e sy days
           = ([], Inl (ValueError (''Insufficient historical data for '' @ sy)))"
    and "predict_prices_try_ps e sy days
           = ([], Inl (ValueError (''Insufficient historical data for '' @ sy)))"
    and "predict_prices e sy days
           = ([], Inl (Exception (''Error predicting prices for '' @ sy @ '': ''
                                  @ ''Insufficient historical data for '' @ sy)))"
    and "predict_prices_ps e sy days
           = ([], Inl (Exception (''Prediction failed for '' @ sy @ '': ''
                                  @ ''Insufficient historical data for '' @ sy)))"
  using assms
  by (simp_all add: predict_prices_def predict_prices_ps_def predict_prices_try_def
        predict_prices_try_ps_def)

lemma predict_prices_raises_only_Exception:
  "snd (predict_prices e sy days) = Inl x \<Longrightarrow> \<exists>m. x = Exception (''Error predicting prices for '' @ sy @ '': '' @ m)"
  "snd (predict_prices_ps e sy days) = Inl x \<Longrightarrow> \<exists>m. x = Exception (''Prediction failed for '' @ sy @ '': '' @ m)"
  by (auto simp: predict_prices_def predict_prices_ps_def split: prod.splits sum.splits)

text \<open>
  Claim C5: for a series of fewer than 50 observations the forecast raises an
  InsufficientDataError, and no predictor is invoked before it is raised.

  The length check raises \<^verbatim>\<open>ValueError\<close> before any predictor is called (the list of
  the predictors called is empty). The check stands inside the \<^verbatim>\<open>try\<close> block, whose
  handler catches every \<^verbatim>\<open>Exception\<close> and raises a plain \<^verbatim>\<open>Exception\<close> instead: what
  \<^verbatim>\<open>predict_prices\<close> raises is never a \<^verbatim>\<open>ValueError\<close>
  (\<open>predict_prices_raises_only_Exception\<close>), though the endpoint of the
  prediction-service has a handler for \<^verbatim>\<open>ValueError\<close> that answers 400. Here at a history
  of 49 rows.
\<close>

theorem short_history_error_is_generic:
  "predict_prices_try_ps (failing_fits short_history) ''AAPL'' 5
     = ([], Inl (ValueError ''Insufficient historical data for AAPL''))
   \<and> predict_prices_ps (failing_fits short_history) ''AAPL'' 5
     = ([], Inl (Exception ''Prediction failed for AAPL: Insufficient historical data for AAPL''))
   \<and> predict_prices_try (failing_fits short_history) ''AAPL'' 5
     = ([], Inl (ValueError ''Insufficient historical data for AAPL''))
   \<and> predict_prices (failing_fits short_history) ''AAPL'' 5
     = ([], Inl (Exception ''Error predicting prices for AAPL: Insufficient historical data for AAPL''))"
proof -
  have len: "length short_history < 50" by (simp add: short_history_def)
  show ?thesis
    using short_history_raises [OF failing_fits_history len, of "''AAPL''" 5] by simp
qed

subsection \<open>C6: what the handler of \<^verbatim>\<open>predict_prices\<close> raises\<close>

lemma predict_prices_zero_price:
  assumes "history e sy = Inr hist" and "50 \<le> length hist"
    and "last (map snd hist) = 0" and "0 < days"
    and "\<forall>f. AutoReg_forecast e (map snd hist) (min 20 (int (length (map snd hist)) div 5)) days
              = Inr f \<longrightarrow> length f = nat days"
    and "\<forall>f. ARIMA_forecast e (map snd hist) days = Inr f \<longrightarrow> length f = nat days"
  shows "predict_prices_try e sy days
           = ([AutoRegression, LinearRegression, ARIMA],
              Inl (ZeroDivisionError ''float division by zero''))"
    and "predict_prices_try_ps e sy days
           = ([AutoRegression, LinearRegression, ARIMA],
              Inl (ZeroDivisionError ''float division by zero''))"
proof -
  obtain ar lr arima where run:
      "length ar = nat days" "length lr = nat days" "length arima = nat days"
      "predict_prices_try e sy days =
         ([AutoRegression, LinearRegression, ARIMA],
          prepare_response e sy days hist (map snd hist) ar lr arima)"
      "predict_prices_try_ps e sy days =
         ([AutoRegression, LinearRegression, ARIMA],
          prepare_response_ps e sy days hist (map snd hist) ar lr arima)"
    using predict_prices_try_run [OF assms(1,2,5,6)] by blast
  show "predict_prices_try e sy days
           = ([AutoRegression, LinearRegression, ARIMA],
              Inl (ZeroDivisionError ''float division by zero''))"
    unfolding run(4) prepare_response_zero_price(1) [OF run(1-3) assms(4,3)] ..
  show "predict_prices_try_ps e sy days
           = ([AutoRegression, LinearRegression, ARIMA],
              Inl (ZeroDivisionError ''float division by zero''))"
    unfolding run(5) prepare_response_zero_price(2) [OF run(1-3) assms(4,3)] ..
qed

lemma zero_close_history_facts:
  "length zero_close_history = 50" "last (map snd zero_close_history) = 0"
  by (simp_all add: zero_close_history_def last_map)

text \<open>
  Claim C6: the assembler raises no error of its own; an InsufficientDataError of the
  length check reaches the caller as that kind of error, distinguishable from other
  failures, and any other exception of the ensembling or assembly is wrapped into a
  PredictionFailedError that carries the symbol and the horizon.

  Counterexample to C6. With a last close of 0 the percentage change divides by zero; the
  error that reaches the caller is the same value for a horizon of 5 and of 7 days, so it
  does not carry the horizon: its message holds the symbol and the message of the
  original exception. And the error of the length check reaches the caller as the same
  plain \<^verbatim>\<open>Exception\<close> as any other failure.
\<close>

theorem wrapped_error_has_no_horizon:
  "snd (predict_prices (failing_fits zero_close_history) ''AAPL'' 5)
     = Inl (Exception ''Error predicting prices for AAPL: float division by zero'')
   \<and> snd (predict_prices (failing_fits zero_close_history) ''AAPL'' 7)
     = Inl (Exception ''Error predicting prices for AAPL: float division by zero'')
   \<and> snd (predict_prices_ps (failing_fits zero_close_history) ''AAPL'' 5)
     = Inl (Exception ''Prediction failed for AAPL: float division by zero'')
   \<and> snd (predict_prices_ps (failing_fits zero_close_history) ''AAPL'' 7)
     = Inl (Exception ''Prediction failed for AAPL: float division by zero'')
   \<and> snd (predict_prices_ps (failing_fits short_history) ''AAPL'' 5)
     = Inl (Exception ''Prediction failed for AAPL: Insufficient historical data for AAPL'')"
proof -
  have len: "50 \<le> length zero_close_history"
    by (simp add: zero_close_history_facts(1))
  have d: "(0::int) < 5" "(0::int) < 7" by simp_all
  note five = predict_prices_zero_price [where e = "failing_fits zero_close_history"
      and sy = "''AAPL''" and hist = zero_close_history and days = 5,
      OF failing_fits_history len zero_close_history_facts(2) d(1) failing_fits_contract]
  note seven = predict_prices_zero_price [where e = "failing_fits zero_close_history"
      and sy = "''AAPL''" and hist = zero_close_history and days = 7,
      OF failing_fits_history len zero_close_history_facts(2) d(2) failing_fits_contract]
  have short: "length short_history < 50" by (simp add: short_history_def)
  show ?thesis
    using five seven short_history_raises(4) [OF failing_fits_history short, of "''AAPL''" 5]
    by (simp add: predict_prices_def predict_prices_ps_def)
qed

text \<open>
  Claim C6 as amended: once the history has at least 50 rows, \<^verbatim>\<open>predict_prices\<close> raises
  no error of its own; every exception raised in its \<^verbatim>\<open>try\<close> block reaches the caller as
  a plain \<^verbatim>\<open>Exception\<close> whose message is a fixed prefix, the symbol, a colon and the
  message of the original exception (the horizon is not part of it); a run that raises
  nothing returns its response as it is; and a last close of 0, with a positive horizon,
  makes the block raise ZeroDivisionError after the three predictors have run.
\<close>

theorem failure_is_wrapped:
  assumes "history e sy = Inr hist" and "50 \<le> length hist"
  shows "(\<forall>called x. predict_prices_try e sy days = (called, Inl x) \<longrightarrow>
            predict_prices e sy days
              = (called, Inl (Exception (''Error predicting prices for '' @ sy @ '': '' @ str_exn x))))
       \<and> (\<forall>called x. predict_prices_try_ps e sy days = (called, Inl x) \<longrightarrow>
            predict_prices_ps e sy days
              = (called, Inl (Exception (''Prediction failed for '' @ sy @ '': '' @ str_exn x))))
       \<and> (\<forall>called r. predict_prices_try e sy days = (called, Inr r) \<longrightarrow>
            predict_prices e sy days = (called, Inr r))
       \<and> (\<forall>called r. predict_prices_try_ps e sy days = (called, Inr r) \<longrightarrow>
            predict_prices_ps e sy days = (called, Inr r))
       \<and> (last (map snd hist) = 0 \<and> 0 < days
           \<and> (\<forall>f. AutoReg_forecast e (map snd hist)
                     (min 20 (int (length (map snd hist)) div 5)) days = Inr f
                   \<longrightarrow> length f = nat days)
           \<and> (\<forall>f. ARIMA_forecast e (map snd hist) days = Inr f \<longrightarrow> length f = nat days)
           \<longrightarrow> predict_prices_try e sy days
                 = ([AutoRegression, LinearRegression, ARIMA],
                    Inl (ZeroDivisionError ''float division by zero''))
             \<and> predict_prices_try_ps e sy days
                 = ([AutoRegression, LinearRegression, ARIMA],
                    Inl (ZeroDivisionError ''float division by zero'')))"
proof -
  have 1: "\<forall>called x. predict_prices_try e sy days = (called, Inl x) \<longrightarrow>
            predict_prices e sy days
              = (called, Inl (Exception (''Error predicting prices for '' @ sy @ '': '' @ str_exn x)))"
    by (simp add: predict_prices_def)
  have 2: "\<forall>called x. predict_prices_try_ps e sy days = (called, Inl x) \<longrightarrow>
            predict_prices_ps e sy days
              = (called, Inl (Exception (''Prediction failed for '' @ sy @ '': '' @ str_exn x)))"
    by (simp add: predict_prices_ps_def)
  have 3: "\<forall>called r. predict_prices_try e sy days = (called, Inr r) \<longrightarrow>
            predict_prices e sy days = (called, Inr r)"
    by (simp add: predict_prices_def)
  have 4: "\<forall>called r. predict_prices_try_ps e sy days = (called, Inr r) \<longrightarrow>
            predict_prices_ps e sy days = (called, Inr r)"
    by (simp add: predict_prices_ps_def)
  have 5: "predict_prices_try e sy days
                 = ([AutoRegression, LinearRegression, ARIMA],
                    Inl (ZeroDivisionError ''float division by zero''))
             \<and> predict_prices_try_ps e sy days
                 = ([AutoRegression, LinearRegression, ARIMA],
                    Inl (ZeroDivisionError ''float division by zero''))"
    if "last (map snd hist) = 0" "0 < days"
      "\<forall>f. AutoReg_forecast e (map snd hist)
                     (min 20 (int (length (map snd hist)) div 5)) days = Inr f
                   \<longrightarrow> length f = nat days"
      "\<forall>f. ARIMA_forecast e (map snd hist) days = Inr f \<longrightarrow> length f = nat days"
    using predict_prices_zero_price [OF assms that] by (intro conjI)
  show ?thesis
    using 1 2 3 4 5 by (intro conjI impI) (blast+)
qed

text \<open>An instance: fifty closes of which the last is 0, and a horizon of 5 days.\<close>

theorem failure_is_wrapped_witness:
  "predict_prices (failing_fits zero_close_history) ''AAPL'' 5
     = ([AutoRegression, LinearRegression, ARIMA],
        Inl (Exception ''Error predicting prices for AAPL: float division by zero''))
   \<and> predict_prices_ps (failing_fits zero_close_history) ''AAPL'' 5
     = ([AutoRegression, LinearRegression, ARIMA],
        Inl (Exception ''Prediction failed for AAPL: float division by zero''))"
proof -
  have len: "50 \<le> length zero_close_history"
    by (simp add: zero_close_history_facts(1))
  note inst = failure_is_wrapped [where e = "failing_fits zero_close_history"
      and sy = "''AAPL''" and hist = zero_close_history and days = 5,
      OF failing_fits_history len]
  have z: "predict_prices_try (failing_fits zero_close_history) ''AAPL'' 5
                 = ([AutoRegression, LinearRegression, ARIMA],
                    Inl (ZeroDivisionError ''float division by zero''))"
      "predict_prices_try_ps (failing_fits zero_close_history) ''AAPL'' 5
                 = ([AutoRegression, LinearRegression, ARIMA],
                    Inl (ZeroDivisionError ''float division by zero''))"
    using inst zero_close_history_facts(2) failing_fits_contract by simp_all
  have a: "predict_prices (failing_fits zero_close_history) ''AAPL'' 5
     = ([AutoRegression, LinearRegression, ARIMA],
        Inl (Exception (''Error predicting prices for '' @ ''AAPL'' @ '': ''
                        @ str_exn (ZeroDivisionError ''float division by zero''))))"
    using inst z(1) by blast
  have b: "predict_prices_ps (failing_fits zero_close_history) ''AAPL'' 5
     = ([AutoRegression, LinearRegression, ARIMA],
        Inl (Exception (''Prediction failed for '' @ ''AAPL'' @ '': ''
                        @ str_exn (ZeroDivisionError ''float division by zero''))))"
    using inst z(2) by blast
  show ?thesis
    using a b by simp
qed

end
